theory Spec2Isabelle
  imports Complex_Main "HOL-Library.AList"
begin

section \<open>Python values and errors\<close>

text \<open>
  The exceptions the two modules can raise. Every \<^verbatim>\<open>raise\<close> of the source, and every
  operation of Python that fails on the value it is given, is a branch \<open>Inl e\<close> of the
  function that models it.
\<close>

datatype py_error =
  AttributeError | TypeError | KeyError | NameError | IndexError | ValueError | UnicodeEncodeError

text \<open>
  The values a resolved \<^verbatim>\<open>value\<close> property can have. Floating-point values are left
  out: nothing below depends on them, and their text form is what \<^verbatim>\<open>str\<close> of a float
  gives.
\<close>

datatype pyval = PNone | PBool bool | PInt int | PStr string

text \<open>
  A Python string is held as the bytes of its UTF-8 form, so a character of ASCII as itself.
  A lone surrogate (U+D800 to U+DFFF), which a Python string can hold and which has no UTF-8
  form, is held as the three bytes \<^verbatim>\<open>ED A0..BF 80..BF\<close> that the error handler \<^verbatim>\<open>surrogatepass\<close>
  writes for it. Every character the two modules and the format syntax look for is of ASCII,
  and no byte of another character is a byte of ASCII: splitting, comparing and searching the
  bytes is splitting, comparing and searching the string.
\<close>

section \<open>The configuration stack (the collaborator of both modules)\<close>

datatype instance_state = Default | Calculated | User

text \<open>
  What \<^verbatim>\<open>container.getProperty(key, "value")\<close> returns: \<^verbatim>\<open>None\<close>, a literal (its content
  is never inspected), or a \<^verbatim>\<open>SettingFunction\<close>, of which \<^verbatim>\<open>getUsedSettingKeys()\<close> is read.
\<close>

datatype raw_value = NoValue | LiteralValue | SettingFunction (getUsedSettingKeys: "string list")

text \<open>A setting definition with its child definitions (\<^verbatim>\<open>definition.key\<close>, \<^verbatim>\<open>definition.children\<close>).\<close>

datatype setting_definition = Definition (def_key: string) (def_children: "setting_definition list")

text \<open>
  A container. \<open>has_getProperty\<close> is false for a container without per-setting lookup:
  \<^verbatim>\<open>container.getProperty\<close> raises \<^verbatim>\<open>AttributeError\<close> on it. \<open>is_DefinitionContainer\<close> is
  \<^verbatim>\<open>container.__class__ == DefinitionContainer\<close>.
\<close>

record container =
  has_getProperty :: bool
  raw_values :: "(string \<times> raw_value) list"
  is_DefinitionContainer :: bool
  definitions :: "setting_definition list"

text \<open>
  The properties a stack resolves for one key, typed as the data model has them:
  \<^verbatim>\<open>value\<close>, \<^verbatim>\<open>state\<close>, \<^verbatim>\<open>enabled\<close>, \<^verbatim>\<open>resolve\<close> (\<open>PNone\<close> is \<^verbatim>\<open>None\<close>),
  \<^verbatim>\<open>settable_per_extruder\<close> and \<^verbatim>\<open>limit_to_extruder\<close> (the index \<^verbatim>\<open>int(...)\<close> reads, \<open>None\<close>
  for \<^verbatim>\<open>None\<close>).
\<close>

record setting_props =
  p_value :: pyval
  p_state :: "instance_state option"
  p_enabled :: bool
  p_resolve :: pyval
  p_settable_per_extruder :: bool
  p_limit_to_extruder :: "int option"

text \<open>
  A stack: its id, its containers (index 0 is the top), the next stack of the chain, the
  properties it resolves per key, and the keys \<^verbatim>\<open>getAllKeys()\<close> returns.
\<close>

datatype stack = Stack
  (getId: string)
  (getContainers: "container list")
  (getNextStack: "stack option")
  (resolved: "(string \<times> setting_props) list")
  (getAllKeys: "string list")

text \<open>\<^verbatim>\<open>stack.getProperty(key, name)\<close>; a key the stack does not know gives \<^verbatim>\<open>None\<close>.\<close>

definition getProperty_value :: "stack \<Rightarrow> string \<Rightarrow> pyval" where
  "getProperty_value st k = (case map_of (resolved st) k of None \<Rightarrow> PNone | Some ps \<Rightarrow> p_value ps)"

definition getProperty_state :: "stack \<Rightarrow> string \<Rightarrow> instance_state option" where
  "getProperty_state st k = (case map_of (resolved st) k of None \<Rightarrow> None | Some ps \<Rightarrow> p_state ps)"

definition getProperty_enabled :: "stack \<Rightarrow> string \<Rightarrow> bool" where
  "getProperty_enabled st k = (case map_of (resolved st) k of None \<Rightarrow> False | Some ps \<Rightarrow> p_enabled ps)"

definition getProperty_resolve :: "stack \<Rightarrow> string \<Rightarrow> pyval" where
  "getProperty_resolve st k = (case map_of (resolved st) k of None \<Rightarrow> PNone | Some ps \<Rightarrow> p_resolve ps)"

definition getProperty_settable_per_extruder :: "stack \<Rightarrow> string \<Rightarrow> bool" where
  "getProperty_settable_per_extruder st k =
     (case map_of (resolved st) k of None \<Rightarrow> False | Some ps \<Rightarrow> p_settable_per_extruder ps)"

definition getProperty_limit_to_extruder :: "stack \<Rightarrow> string \<Rightarrow> int option" where
  "getProperty_limit_to_extruder st k =
     (case map_of (resolved st) k of None \<Rightarrow> None | Some ps \<Rightarrow> p_limit_to_extruder ps)"

text \<open>\<^verbatim>\<open>stack.getTop()\<close>: the container at index 0, \<^verbatim>\<open>None\<close> for a stack without containers.\<close>

definition getTop :: "stack \<Rightarrow> container option" where
  "getTop st = (case getContainers st of [] \<Rightarrow> None | c # _ \<Rightarrow> Some c)"

text \<open>\<^verbatim>\<open>container.getProperty(key, "value")\<close>.\<close>

definition container_getProperty :: "container \<Rightarrow> string \<Rightarrow> py_error + raw_value" where
  "container_getProperty c k =
     (if \<not> has_getProperty c then Inl AttributeError
      else Inr (case map_of (raw_values c) k of None \<Rightarrow> NoValue | Some v \<Rightarrow> v))"

definition isinstance_SettingFunction :: "raw_value \<Rightarrow> bool" where
  "isinstance_SettingFunction v = (case v of SettingFunction _ \<Rightarrow> True | _ \<Rightarrow> False)"

text \<open>
  The first loop of \<^verbatim>\<open>_determineInherit\<close>: the containers of the stack, then those of each
  next stack.
\<close>

fun chain_containers :: "stack \<Rightarrow> container list" where
  "chain_containers (Stack i cs nxt ps ks) =
     cs @ (case nxt of None \<Rightarrow> [] | Some s \<Rightarrow> chain_containers s)"

section \<open>CuraPropertyProvider\<close>

text \<open>
  The state of a provider: the bound key (the empty string when no key is bound, the case
  \<^verbatim>\<open>not self._key\<close>), \<^verbatim>\<open>_global_container_stack\<close>, \<^verbatim>\<open>_should_show_inherit\<close>, and the
  three attributes of the base class \<^verbatim>\<open>SettingPropertyProvider\<close> the subclass reads or sets:
  the id given to \<^verbatim>\<open>setContainerStackId\<close>, the stack \<^verbatim>\<open>_stack\<close> bound to it, and
  \<^verbatim>\<open>stackLevels\<close>. Signal connections are wiring and are not part of the state.
\<close>

record provider =
  prov_key :: string
  global_container_stack :: "stack option"
  containerStackId :: "string option"
  prov_stack :: "stack option"
  stackLevels :: "int list"
  should_show_inherit :: bool

text \<open>
  What the singletons answer during one call: the global stack of the application, the
  extruder stacks by index, the index of the active extruder, and the stacks of the
  container registry.
\<close>

record env =
  getGlobalContainerStack :: "stack option"
  extruder_stacks :: "stack list"
  active_extruder_index :: int
  registered_stacks :: "stack list"

text \<open>
  Modelled from the spec: \<^verbatim>\<open>ExtruderManager\<close> (cura/Settings/ExtruderManager.py) is not among
  the sources. The extruder topology is an ordered list of extruder stacks \<open>0..N-1\<close>, each
  with a stable identifier; \<^verbatim>\<open>getExtruderStack(index)\<close> is the stack at that index if it
  exists, and \<^verbatim>\<open>activeExtruderStackId\<close> is the id of the stack of the active extruder.
\<close>

definition getExtruderStack :: "env \<Rightarrow> int \<Rightarrow> stack option" where
  "getExtruderStack e i =
     (if 0 \<le> i \<and> nat i < length (extruder_stacks e) then Some (extruder_stacks e ! nat i) else None)"

definition activeExtruderStackId :: "env \<Rightarrow> string option" where
  "activeExtruderStackId e = map_option getId (getExtruderStack e (active_extruder_index e))"

text \<open>
  The base class computes \<^verbatim>\<open>stackLevels\<close> from the bound stack: the indices, counted along
  the chain, of the containers that hold a value for the key. Index 0 is the top container of
  the target stack.
\<close>

fun levels_from :: "string \<Rightarrow> int \<Rightarrow> container list \<Rightarrow> int list" where
  "levels_from k i [] = []"
| "levels_from k i (c # cs) =
     (case container_getProperty c k of
        Inl e \<Rightarrow> levels_from k (i + 1) cs
      | Inr v \<Rightarrow> (if v \<noteq> NoValue then i # levels_from k (i + 1) cs else levels_from k (i + 1) cs))"

definition base_stackLevels :: "stack option \<Rightarrow> string \<Rightarrow> int list" where
  "base_stackLevels s k = (case s of None \<Rightarrow> [] | Some st \<Rightarrow> levels_from k 0 (chain_containers st))"

text \<open>
  \<^verbatim>\<open>setContainerStackId\<close> of the base class: nothing changes when the id is the one already
  set; otherwise the id is recorded, \<^verbatim>\<open>_stack\<close> becomes the global stack for \<^verbatim>\<open>"global"\<close>,
  the registered stack of that id if there is one (else it stays), \<^verbatim>\<open>None\<close> for no id, and
  the stack levels are recomputed. It does not touch \<^verbatim>\<open>_should_show_inherit\<close>.
\<close>

definition setContainerStackId :: "env \<Rightarrow> string option \<Rightarrow> provider \<Rightarrow> provider" where
  "setContainerStackId e sid p =
     (if sid = containerStackId p then p
      else
        let st = (case sid of
                    None \<Rightarrow> None
                  | Some i \<Rightarrow>
                      if i = ''global'' then getGlobalContainerStack e
                      else (case find (\<lambda>s. getId s = i) (registered_stacks e) of
                              None \<Rightarrow> prov_stack p
                            | Some s \<Rightarrow> Some s))
        in p\<lparr>containerStackId := sid, prov_stack := st,
             stackLevels := base_stackLevels st (prov_key p)\<rparr>)"

text \<open>The property \<^verbatim>\<open>shouldShowRevert\<close>: \<^verbatim>\<open>0 in self.stackLevels\<close>.\<close>

definition shouldShowRevert :: "provider \<Rightarrow> bool" where
  "shouldShowRevert p = (0 \<in> set (stackLevels p))"

text \<open>The property \<^verbatim>\<open>shouldShowInherit\<close>: \<^verbatim>\<open>self._should_show_inherit\<close>.\<close>

definition shouldShowInherit :: "provider \<Rightarrow> bool" where
  "shouldShowInherit p = should_show_inherit p"

text \<open>
  The inner \<^verbatim>\<open>for ... else\<close> of \<^verbatim>\<open>_determineInherit\<close>: whether one of the used keys of the
  function is among \<^verbatim>\<open>self._stack.getAllKeys()\<close>.
\<close>

definition uses_setting_key :: "string list \<Rightarrow> raw_value \<Rightarrow> bool" where
  "uses_setting_key all_keys v =
     (case v of SettingFunction used \<Rightarrow> (\<exists>setting_key \<in> set used. setting_key \<in> set all_keys)
      | _ \<Rightarrow> False)"

text \<open>
  The second loop of \<^verbatim>\<open>_determineInherit\<close>, with its two flags \<open>f\<close>
  (\<^verbatim>\<open>has_setting_function\<close>) and \<open>n\<close> (\<^verbatim>\<open>has_non_function_value\<close>). Returning the flags is
  the \<^verbatim>\<open>break\<close>, the recursive call the \<^verbatim>\<open>continue\<close> or the end of the body.
\<close>

fun inherit_scan :: "string list \<Rightarrow> string \<Rightarrow> container list \<Rightarrow> bool \<Rightarrow> bool \<Rightarrow> bool \<times> bool" where
  "inherit_scan all_keys k [] f n = (f, n)"
| "inherit_scan all_keys k (c # cs) f n =
     (case container_getProperty c k of
        Inl e \<Rightarrow> inherit_scan all_keys k cs f n
      | Inr v \<Rightarrow>
          if v \<noteq> NoValue then
            (let f1 = isinstance_SettingFunction v;
                 f2 = (if f1 then (if uses_setting_key all_keys v then f1 else False) else f1)
             in if f2 = False then inherit_scan all_keys k cs f2 True
                else if f2 then (f2, n)
                else inherit_scan all_keys k cs f2 n)
          else if f then (f, n)
          else inherit_scan all_keys k cs f n)"

text \<open>\<^verbatim>\<open>_determineInherit\<close>. \<^verbatim>\<open>self._stack\<close> or \<^verbatim>\<open>getTop()\<close> being \<^verbatim>\<open>None\<close> is an \<^verbatim>\<open>AttributeError\<close>.\<close>

definition determineInherit :: "provider \<Rightarrow> py_error + bool" where
  "determineInherit p =
     (case prov_stack p of
        None \<Rightarrow> Inl AttributeError
      | Some st \<Rightarrow>
          if getProperty_resolve st (prov_key p) \<noteq> PNone then Inr False
          else if getProperty_state st (prov_key p) \<noteq> Some User then Inr False
          else if \<not> getProperty_enabled st (prov_key p) then Inr False
          else
            (case getTop st of
               None \<Rightarrow> Inl AttributeError
             | Some top_container \<Rightarrow>
                 (case container_getProperty top_container (prov_key p) of
                    Inl e \<Rightarrow> Inl e
                  | Inr v \<Rightarrow>
                      if isinstance_SettingFunction v then Inr False
                      else
                        (case inherit_scan (getAllKeys st) (prov_key p) (chain_containers st) False False of
                           (has_setting_function, has_non_function_value) \<Rightarrow>
                             Inr (has_setting_function \<and> has_non_function_value)))))"

text \<open>\<^verbatim>\<open>_updateShouldShowInherit\<close> (the signal it emits on a change is not modelled).\<close>

definition updateShouldShowInherit :: "provider \<Rightarrow> py_error + provider" where
  "updateShouldShowInherit p =
     (case determineInherit p of
        Inl e \<Rightarrow> Inl e
      | Inr should \<Rightarrow>
          Inr (if should \<noteq> should_show_inherit p then p\<lparr>should_show_inherit := should\<rparr> else p))"

text \<open>
  \<^verbatim>\<open>value <= 1\<close> on the value of \<^verbatim>\<open>machine_extruder_count\<close>: an \<^verbatim>\<open>int\<close> is compared, a
  \<^verbatim>\<open>bool\<close> is the integer 0 or 1, \<^verbatim>\<open>None\<close> and a string raise \<^verbatim>\<open>TypeError\<close>.
\<close>

definition py_le_1 :: "pyval \<Rightarrow> py_error + bool" where
  "py_le_1 v = (case v of PInt n \<Rightarrow> Inr (n \<le> 1) | PBool b \<Rightarrow> Inr True | _ \<Rightarrow> Inl TypeError)"

text \<open>
  The test \<^verbatim>\<open>limit_to_extruder is not None and int(limit_to_extruder) >= 0\<close>: the index
  when the test holds, \<open>None\<close> when it does not.
\<close>

definition limit_index :: "int option \<Rightarrow> int option" where
  "limit_index limit_to_extruder =
     (case limit_to_extruder of None \<Rightarrow> None | Some i \<Rightarrow> if i \<ge> 0 then Some i else None)"

text \<open>
  \<^verbatim>\<open>_updateStack\<close>. The result \<open>Inr p\<close> is a return with the provider in state \<open>p\<close>;
  \<open>Inl (e, p)\<close> is the exception \<open>e\<close> leaving \<^verbatim>\<open>_updateStack\<close> with the provider in state
  \<open>p\<close>. The module does not import \<^verbatim>\<open>Logger\<close>, so the call \<^verbatim>\<open>Logger.log\<close> of the branch for
  a missing extruder raises \<^verbatim>\<open>NameError\<close>.
\<close>

definition updateStack :: "env \<Rightarrow> provider \<Rightarrow> (py_error \<times> provider) + provider" where
  "updateStack e p =
     (if prov_key p = [] then Inr p
      else
        (case getGlobalContainerStack e of
           None \<Rightarrow> Inr p
         | Some g \<Rightarrow>
             (let p1 = p\<lparr>global_container_stack := Some g\<rparr> in
              case py_le_1 (getProperty_value g ''machine_extruder_count'') of
                Inl err \<Rightarrow> Inl (err, p1)
              | Inr True \<Rightarrow> Inr (setContainerStackId e (Some ''global'') p1)
              | Inr False \<Rightarrow>
                  if \<not> getProperty_settable_per_extruder g (prov_key p) then
                    Inr (setContainerStackId e (Some ''global'') p1)
                  else
                    (case limit_index (getProperty_limit_to_extruder g (prov_key p)) of
                       Some i \<Rightarrow>
                         (case getExtruderStack e i of
                            Some extruder_stack \<Rightarrow>
                              Inr (setContainerStackId e (Some (getId extruder_stack)) p1)
                          | None \<Rightarrow> Inl (NameError, p1))
                     | None \<Rightarrow>
                         (let p2 = setContainerStackId e (activeExtruderStackId e) p1 in
                          case updateShouldShowInherit p2 of
                            Inl err \<Rightarrow> Inl (err, p2)
                          | Inr p3 \<Rightarrow> Inr p3)))))"

section \<open>Notions used to state the properties of the provider\<close>

text \<open>
  A container holds a qualifying function for the key when its value is a
  \<^verbatim>\<open>SettingFunction\<close> one of whose used keys is a key of the stack.
\<close>

definition qualifying_function_layer :: "string list \<Rightarrow> string \<Rightarrow> container \<Rightarrow> bool" where
  "qualifying_function_layer all_keys k c =
     (case container_getProperty c k of Inl e \<Rightarrow> False | Inr v \<Rightarrow> uses_setting_key all_keys v)"

text \<open>A container holds a literal for the key: a value that is not a \<^verbatim>\<open>SettingFunction\<close>.\<close>

definition literal_layer :: "string \<Rightarrow> container \<Rightarrow> bool" where
  "literal_layer k c = (container_getProperty c k = Inr LiteralValue)"

text \<open>
  A container holds what the scan treats as a fixed value: any value that is not a
  qualifying function, so a literal, or a function none of whose used keys is a key of the
  stack.
\<close>

definition fixed_value_layer :: "string list \<Rightarrow> string \<Rightarrow> container \<Rightarrow> bool" where
  "fixed_value_layer all_keys k c =
     (case container_getProperty c k of
        Inl e \<Rightarrow> False
      | Inr v \<Rightarrow> v \<noteq> NoValue \<and> \<not> uses_setting_key all_keys v)"

text \<open>
  The walk as the specification words it: it stops at the first qualifying function layer,
  and it finds both such a layer and, before it, a literal (non-function) layer.
\<close>

definition walk_finds_function_and_literal :: "string list \<Rightarrow> string \<Rightarrow> container list \<Rightarrow> bool" where
  "walk_finds_function_and_literal all_keys k cs =
     ((\<exists>c \<in> set cs. qualifying_function_layer all_keys k c)
      \<and> (\<exists>c \<in> set (takeWhile (\<lambda>c. \<not> qualifying_function_layer all_keys k c) cs). literal_layer k c))"

text \<open>The same walk, with a fixed-value layer in place of the literal layer.\<close>

definition walk_finds_function_and_fixed_value :: "string list \<Rightarrow> string \<Rightarrow> container list \<Rightarrow> bool" where
  "walk_finds_function_and_fixed_value all_keys k cs =
     ((\<exists>c \<in> set cs. qualifying_function_layer all_keys k c)
      \<and> (\<exists>c \<in> set (takeWhile (\<lambda>c. \<not> qualifying_function_layer all_keys k c) cs).
            fixed_value_layer all_keys k c))"

text \<open>
  The branch of the resolution algorithm a call of \<^verbatim>\<open>_updateStack\<close> takes, numbered as the
  specification numbers its steps: 1 no key, 2 no global stack, 3 at most one extruder,
  4 not settable per extruder, 5 limited to an extruder, 6 the active extruder. 0 stands for
  the comparison of the extruder count raising.
\<close>

definition resolution_branch :: "env \<Rightarrow> provider \<Rightarrow> nat" where
  "resolution_branch e p =
     (if prov_key p = [] then 1
      else
        (case getGlobalContainerStack e of
           None \<Rightarrow> 2
         | Some g \<Rightarrow>
             (case py_le_1 (getProperty_value g ''machine_extruder_count'') of
                Inl err \<Rightarrow> 0
              | Inr True \<Rightarrow> 3
              | Inr False \<Rightarrow>
                  if \<not> getProperty_settable_per_extruder g (prov_key p) then 4
                  else if limit_index (getProperty_limit_to_extruder g (prov_key p)) \<noteq> None then 5
                  else 6)))"

section \<open>Text of values, log entries\<close>

text \<open>A call \<^verbatim>\<open>Logger.log(level, message, *args)\<close>.\<close>

datatype log_entry = LogEntry (level: string) (message: string) (args: "string list")

text \<open>\<^verbatim>\<open>str(n)\<close> for a natural number and for a value.\<close>

fun str_of_nat :: "nat \<Rightarrow> string" where
  "str_of_nat n =
     (if n < 10 then [''0123456789'' ! n]
      else str_of_nat (n div 10) @ [''0123456789'' ! (n mod 10)])"

declare str_of_nat.simps [simp del]

definition py_str :: "pyval \<Rightarrow> string" where
  "py_str v =
     (case v of
        PNone \<Rightarrow> ''None''
      | PBool b \<Rightarrow> (if b then ''True'' else ''False'')
      | PInt i \<Rightarrow> (if i < 0 then CHR ''-'' # str_of_nat (nat (- i)) else str_of_nat (nat i))
      | PStr s \<Rightarrow> s)"

text \<open>
  \<^verbatim>\<open>s.encode("utf-8")\<close>, and \<^verbatim>\<open>s.encode()\<close>, which is the same: the bytes of the string, or
  \<^verbatim>\<open>UnicodeEncodeError\<close> when the string holds a surrogate. In the bytes of a string the byte
  \<^verbatim>\<open>ED\<close> begins a surrogate exactly when the next byte is \<^verbatim>\<open>A0\<close> or more.
\<close>

fun has_surrogate :: "string \<Rightarrow> bool" where
  "has_surrogate [] = False"
| "has_surrogate [c] = False"
| "has_surrogate (c # d # cs) =
     ((of_char c = (237 :: nat) \<and> (160 :: nat) \<le> of_char d) \<or> has_surrogate (d # cs))"

definition encode :: "string \<Rightarrow> py_error + string" where
  "encode s = (if has_surrogate s then Inl UnicodeEncodeError else Inr s)"

text \<open>
  The bytes of one character: its first byte and the continuation bytes (\<^verbatim>\<open>80\<close> to \<^verbatim>\<open>BF\<close>)
  that follow it.
\<close>

definition is_ascii :: "char \<Rightarrow> bool" where
  "is_ascii c = ((of_char c :: nat) < 128)"

definition is_continuation :: "char \<Rightarrow> bool" where
  "is_continuation c = (128 \<le> (of_char c :: nat) \<and> (of_char c :: nat) < 192)"

section \<open>The format-string parser of \<^verbatim>\<open>string.Formatter\<close>\<close>

text \<open>
  \<^verbatim>\<open>Formatter.parse\<close> yields, one at a time, a piece of literal text and possibly a
  replacement field: its name, its format spec and its conversion, one character. The three
  scanners below follow the parser of CPython 3: the field name runs to the first \<^verbatim>\<open>}\<close>,
  \<^verbatim>\<open>:\<close> or \<^verbatim>\<open>!\<close> outside square brackets and may not contain \<^verbatim>\<open>{\<close>; the format spec runs to
  the matching \<^verbatim>\<open>}\<close>. Every failure is a \<^verbatim>\<open>ValueError\<close>.
\<close>

type_synonym replacement_field = "string \<times> string \<times> string option"

fun scan_name :: "bool \<Rightarrow> string \<Rightarrow> py_error + (string \<times> char \<times> string)" where
  "scan_name in_brackets [] = Inl ValueError"
| "scan_name True (c # cs) =
     (case scan_name (c \<noteq> CHR '']'') cs of
        Inl e \<Rightarrow> Inl e
      | Inr (n, t, r) \<Rightarrow> Inr (c # n, t, r))"
| "scan_name False (c # cs) =
     (if c = CHR ''{'' then Inl ValueError
      else if c = CHR ''}'' \<or> c = CHR '':'' \<or> c = CHR ''!'' then Inr ([], c, cs)
      else
        (case scan_name (c = CHR ''['') cs of
           Inl e \<Rightarrow> Inl e
         | Inr (n, t, r) \<Rightarrow> Inr (c # n, t, r)))"

fun scan_spec :: "nat \<Rightarrow> string \<Rightarrow> py_error + (string \<times> string)" where
  "scan_spec count [] = Inl ValueError"
| "scan_spec count (c # cs) =
     (if c = CHR ''}'' \<and> count = 1 then Inr ([], cs)
      else
        (case scan_spec (if c = CHR ''{'' then count + 1 else if c = CHR ''}'' then count - 1 else count) cs of
           Inl e \<Rightarrow> Inl e
         | Inr (s, r) \<Rightarrow> Inr (c # s, r)))"

definition parse_field :: "string \<Rightarrow> py_error + (replacement_field \<times> string)" where
  "parse_field s =
     (case scan_name False s of
        Inl e \<Rightarrow> Inl e
      | Inr (n, t, r) \<Rightarrow>
          if t = CHR ''}'' then Inr ((n, [], None), r)
          else if t = CHR ''!'' then
            (case r of
               [] \<Rightarrow> Inl ValueError
             | conv # r0 \<Rightarrow>
                 (case dropWhile is_continuation r0 of
                    [] \<Rightarrow> Inl ValueError
                  | c2 # r2 \<Rightarrow>
                      if c2 = CHR ''}'' then
                        Inr ((n, [], Some (conv # takeWhile is_continuation r0)), r2)
                      else if c2 \<noteq> CHR '':'' then Inl ValueError
                      else
                        (case scan_spec 1 r2 of
                           Inl e \<Rightarrow> Inl e
                         | Inr (spec, r3) \<Rightarrow>
                             Inr ((n, spec, Some (conv # takeWhile is_continuation r0)), r3))))
          else
            (case scan_spec 1 r of
               Inl e \<Rightarrow> Inl e
             | Inr (spec, r3) \<Rightarrow> Inr ((n, spec, None), r3)))"

text \<open>
  One step of the parser: \<open>None\<close> at the end of the string, else the literal text, the
  field if one follows, and the rest of the string. \<^verbatim>\<open>{{\<close> and \<^verbatim>\<open>}}\<close> are the literal
  braces; a single brace that opens no field is an error.
\<close>

definition is_brace :: "char \<Rightarrow> bool" where
  "is_brace c = (c = CHR ''{'' \<or> c = CHR ''}'')"

definition next_item ::
  "string \<Rightarrow> py_error + (string \<times> replacement_field option \<times> string) option" where
  "next_item s =
     (if s = [] then Inr None
      else
        (case dropWhile (\<lambda>c. \<not> is_brace c) s of
           [] \<Rightarrow> Inr (Some (s, None, []))
         | c # rest \<Rightarrow>
             (case rest of
                [] \<Rightarrow> Inl ValueError
              | d # rest1 \<Rightarrow>
                  if d = c then
                    Inr (Some (takeWhile (\<lambda>c. \<not> is_brace c) s @ [c], None, rest1))
                  else if c = CHR ''}'' then Inl ValueError
                  else
                    (case parse_field rest of
                       Inl e \<Rightarrow> Inl e
                     | Inr (f, rest2) \<Rightarrow>
                         Inr (Some (takeWhile (\<lambda>c. \<not> is_brace c) s, Some f, rest2))))))"

section \<open>\<^verbatim>\<open>GcodeStartEndFormatter\<close> and \<^verbatim>\<open>_expandGcodeTokens\<close>\<close>

text \<open>
  The key \<^verbatim>\<open>get_value\<close> receives: the first part of the field name, as an integer when it
  is made of decimal digits, else as a string.
\<close>

datatype arg_key = IntKey nat | StrKey string

text \<open>
  \<^verbatim>\<open>GcodeStartEndFormatter.get_value\<close>: the value and the log entries of the call. The
  settings are the keyword arguments, a dictionary in iteration order.
\<close>

definition get_value :: "arg_key \<Rightarrow> (string \<times> pyval) list \<Rightarrow> pyval \<times> log_entry list" where
  "get_value k kwargs =
     (case k of
        StrKey s \<Rightarrow>
          (case map_of kwargs s of
             Some v \<Rightarrow> (v, [])
           | None \<Rightarrow>
               (PStr (''{'' @ s @ ''}''),
                [LogEntry ''w'' ''Unable to replace '%s' placeholder in start/end gcode'' [s]]))
      | IntKey n \<Rightarrow>
          (PStr (''{'' @ str_of_nat n @ ''}''),
           [LogEntry ''w'' ''Incorrectly formatted placeholder '%s' in start/end gcode''
              [str_of_nat n]]))"

text \<open>
  The numbering of fields in \<^verbatim>\<open>_vformat\<close>. The counter \<^verbatim>\<open>auto_arg_index\<close> is a number, or
  \<^verbatim>\<open>False\<close> (here \<open>None\<close>) once a field has been numbered by hand. An empty name takes the
  counter; a name of digits switches the counter off; mixing the two raises \<^verbatim>\<open>ValueError\<close>.
  \<open>isdigit\<close> is \<^verbatim>\<open>str.isdigit\<close> for the names it is used on below: those that have no character
  outside ASCII, or have a character of ASCII that is not a digit.
\<close>

definition is_digit :: "char \<Rightarrow> bool" where
  "is_digit c = (c \<in> set ''0123456789'')"

definition isdigit :: "string \<Rightarrow> bool" where
  "isdigit s = (s \<noteq> [] \<and> list_all is_digit s)"

definition number_field :: "string \<Rightarrow> nat option \<Rightarrow> py_error + (string \<times> nat option)" where
  "number_field field_name auto_arg_index =
     (if field_name = [] then
        (case auto_arg_index of
           None \<Rightarrow> Inl ValueError
         | Some n \<Rightarrow> Inr (str_of_nat n, Some (n + 1)))
      else if isdigit field_name then
        (case auto_arg_index of
           None \<Rightarrow> Inr (field_name, None)
         | Some n \<Rightarrow> if n \<noteq> 0 then Inl ValueError else Inr (field_name, None))
      else Inr (field_name, auto_arg_index))"

text \<open>
  \<^verbatim>\<open>formatter_field_name_split\<close>: the first part of the name runs to the first \<^verbatim>\<open>.\<close> or
  \<^verbatim>\<open>[\<close>; a name that has neither is its own first part. Made of digits, it is read as an
  integer, and one beyond the largest index of the platform (64 bits) raises \<^verbatim>\<open>ValueError\<close>.
\<close>

definition is_accessor :: "char \<Rightarrow> bool" where
  "is_accessor c = (c = CHR ''.'' \<or> c = CHR ''['')"

definition digit_value :: "char \<Rightarrow> nat" where
  "digit_value c = of_char c - 48"

definition get_integer :: "string \<Rightarrow> nat" where
  "get_integer s = foldl (\<lambda>accumulator c. accumulator * 10 + digit_value c) 0 s"

definition PY_SSIZE_T_MAX :: nat where
  "PY_SSIZE_T_MAX = 2 ^ 63 - 1"

definition first_key :: "string \<Rightarrow> py_error + arg_key" where
  "first_key first =
     (if isdigit first then
        (if get_integer first > PY_SSIZE_T_MAX then Inl ValueError else Inr (IntKey (get_integer first)))
      else Inr (StrKey first))"

text \<open>
  Whether a name of characters outside ASCII, with or without ASCII digits among them, is a
  number (\<^verbatim>\<open>str.isdigit\<close>, and the decimal digits \<^verbatim>\<open>formatter_field_name_split\<close> reads) is for the
  Unicode database of the interpreter to say.
\<close>

definition number_by_database :: "string \<Rightarrow> bool" where
  "number_by_database field_name =
     (list_ex (\<lambda>c. \<not> is_ascii c) field_name
      \<and> list_all (\<lambda>c. is_ascii c \<longrightarrow> is_digit c) field_name)"

text \<open>
  What the library does with a field that is more than a plain name: with a name that has an
  attribute or index lookup, a conversion or a format spec, or a name that is a number by the
  database. It is a parameter of the model: given \<^verbatim>\<open>get_value\<close> with the settings, the field
  and the counter, it gives the text and the new counter, or the exception, with the log
  entries of the calls of \<^verbatim>\<open>get_value\<close> it makes.
\<close>

type_synonym field_finisher =
  "(arg_key \<Rightarrow> pyval \<times> log_entry list) \<Rightarrow> replacement_field \<Rightarrow> nat option
     \<Rightarrow> (py_error + (string \<times> nat option)) \<times> log_entry list"

text \<open>
  One replacement field in \<^verbatim>\<open>_vformat\<close>. For a plain name: the numbering, \<^verbatim>\<open>get_field\<close>, which
  calls \<^verbatim>\<open>get_value\<close> with the whole name, and \<^verbatim>\<open>format(obj, "")\<close>, which is \<^verbatim>\<open>str(obj)\<close>.
\<close>

definition field_text ::
  "field_finisher \<Rightarrow> (string \<times> pyval) list \<Rightarrow> replacement_field \<Rightarrow> nat option
     \<Rightarrow> (py_error + (string \<times> nat option)) \<times> log_entry list" where
  "field_text finish kwargs f auto_arg_index =
     (case f of (field_name, format_spec, conversion) \<Rightarrow>
        if list_ex is_accessor field_name \<or> conversion \<noteq> None \<or> format_spec \<noteq> []
           \<or> number_by_database field_name
        then finish (\<lambda>k. get_value k kwargs) f auto_arg_index
        else
          (case number_field field_name auto_arg_index of
             Inl e \<Rightarrow> (Inl e, [])
           | Inr (numbered, auto1) \<Rightarrow>
               (case first_key numbered of
                  Inl e \<Rightarrow> (Inl e, [])
                | Inr k \<Rightarrow>
                    (case get_value k kwargs of (obj, log1) \<Rightarrow>
                       (Inr (py_str obj, auto1), log1)))))"

text \<open>
  The loop of \<^verbatim>\<open>_vformat\<close> over the items of the parser, which are produced as the loop
  asks for them: the text, or the exception that ends the loop, and the entries logged until
  then.
\<close>

function vformat ::
  "field_finisher \<Rightarrow> (string \<times> pyval) list \<Rightarrow> string \<Rightarrow> nat option
     \<Rightarrow> (py_error + string) \<times> log_entry list" where
  "vformat finish kwargs s auto_arg_index =
     (case next_item s of
        Inl e \<Rightarrow> (Inl e, [])
      | Inr None \<Rightarrow> (Inr [], [])
      | Inr (Some (literal_text, None, rest)) \<Rightarrow>
          (case vformat finish kwargs rest auto_arg_index of
             (Inl e, log2) \<Rightarrow> (Inl e, log2)
           | (Inr t, log2) \<Rightarrow> (Inr (literal_text @ t), log2))
      | Inr (Some (literal_text, Some f, rest)) \<Rightarrow>
          (case field_text finish kwargs f auto_arg_index of
             (Inl e, log1) \<Rightarrow> (Inl e, log1)
           | (Inr (text, auto1), log1) \<Rightarrow>
               (case vformat finish kwargs rest auto1 of
                  (Inl e, log2) \<Rightarrow> (Inl e, log1 @ log2)
                | (Inr t, log2) \<Rightarrow> (Inr (literal_text @ text @ t), log1 @ log2))))"
  by pat_completeness auto
termination
proof -
  have name: "length r < length s" if "scan_name b s = Inr (n, t, r)" for b s n t r
    using that by (induction b s arbitrary: n rule: scan_name.induct)
      (auto split: if_splits sum.splits)
  have spec: "length r < length s" if "scan_spec k s = Inr (sp, r)" for k s sp r
    using that by (induction k s arbitrary: sp rule: scan_spec.induct)
      (auto split: if_splits sum.splits)
  have drop: "length r < length s" if "dropWhile P s = c # r" for P s c and r :: string
  proof -
    have "length (dropWhile P s) \<le> length s"
      by (rule length_dropWhile_le)
    with that show ?thesis by simp
  qed
  have field: "length r < length s" if "parse_field s = Inr (f, r)" for s f r
    using that
    by (auto simp: parse_field_def split: sum.splits if_splits list.splits
        dest!: name spec drop)
  have item: "length r < length s" if "next_item s = Inr (Some (l, fo, r))" for s l fo r
    using that
    by (auto simp: next_item_def split: if_splits list.splits sum.splits
        dest!: field drop)
  show ?thesis
    by (relation "measure (\<lambda>(finish, kwargs, s, a). length s)") (auto dest: item)
qed

declare vformat.simps [simp del]

text \<open>
  \<^verbatim>\<open>Formatter.format(value, **settings)\<close>: a value that is not a string cannot be parsed
  (\<^verbatim>\<open>TypeError\<close>); the counter starts at 0.
\<close>

definition formatter_format ::
  "field_finisher \<Rightarrow> pyval \<Rightarrow> (string \<times> pyval) list \<Rightarrow> (py_error + string) \<times> log_entry list" where
  "formatter_format finish v settings =
     (case v of PStr s \<Rightarrow> vformat finish settings s (Some 0) | _ \<Rightarrow> (Inl TypeError, []))"

text \<open>
  \<^verbatim>\<open>_expandGcodeTokens\<close>: the bytes it returns, or the exception it raises, and the entries it
  logs. The bare \<^verbatim>\<open>except\<close> catches every exception of the formatting and of the encoding of
  its result, and logs a warning (whose argument, the traceback, is left out); the handler
  then encodes the text of the value as it was, outside any \<^verbatim>\<open>try\<close>.
\<close>

definition expandGcodeTokens ::
  "field_finisher \<Rightarrow> string \<Rightarrow> pyval \<Rightarrow> (string \<times> pyval) list
     \<Rightarrow> (py_error + string) \<times> log_entry list" where
  "expandGcodeTokens finish k v settings =
     (case formatter_format finish v settings of
        (r, log1) \<Rightarrow>
          (case (case r of Inl e \<Rightarrow> Inl e | Inr text \<Rightarrow> encode text) of
             Inr bytes \<Rightarrow> (Inr bytes, log1)
           | Inl e \<Rightarrow>
               (encode (py_str v),
                log1 @ [LogEntry ''w'' ''Unabled to do token replacement on start/end gcode %s'' []])))"

section \<open>The scene\<close>

type_synonym vertex = "real \<times> real \<times> real"

text \<open>
  What \<^verbatim>\<open>StartSliceJob\<close> reads of a scene node: its identity \<^verbatim>\<open>id(node)\<close>; whether its type
  is exactly \<^verbatim>\<open>SceneNode\<close>; \<^verbatim>\<open>getMeshData()\<close>, which is \<^verbatim>\<open>None\<close> or mesh data whose
  \<^verbatim>\<open>getVertices()\<close> is \<^verbatim>\<open>None\<close> or the rows of a vertex array; \<^verbatim>\<open>getWorldTransformation()\<close>, as
  the map \<^verbatim>\<open>getTransformed\<close> applies to each vertex; the attribute \<^verbatim>\<open>_outside_buildarea\<close>
  (false when absent); and the decorations \<^verbatim>\<open>getLayerData\<close>, \<^verbatim>\<open>isGroup\<close>, \<^verbatim>\<open>getProfile\<close> (the
  dictionary \<^verbatim>\<open>getAllSettingValues()\<close> of the profile) and \<^verbatim>\<open>getAllSettingValues\<close>
  (the field \<open>node_getAllSettingValues\<close>).
  Dictionaries are lists of pairs in iteration order.
\<close>

record node_data =
  node_id :: int
  is_SceneNode :: bool
  getMeshData :: "vertex list option option"
  getWorldTransformation :: "vertex \<Rightarrow> vertex"
  outside_buildarea :: bool
  getLayerData :: bool
  isGroup :: bool
  getProfile :: "(string \<times> pyval) list option"
  node_getAllSettingValues :: "(string \<times> pyval) list option"

datatype node = Node (data: node_data) (getChildren: "node list")

text \<open>A node as the job holds it: with the node \<^verbatim>\<open>getParent()\<close> returns.\<close>

type_synonym placed_node = "node option \<times> node"

text \<open>
  \<^verbatim>\<open>SceneNode.getAllChildren()\<close> of the scene library: the children, then all children of
  each child. \<^verbatim>\<open>DepthFirstIterator\<close> yields the node it is given, then all its children.
\<close>

fun getAllChildren :: "node \<Rightarrow> placed_node list" where
  "getAllChildren (Node d cs) =
     map (\<lambda>c. (Some (Node d cs), c)) cs @ concat (map getAllChildren cs)"

definition DepthFirstIterator :: "node \<Rightarrow> placed_node list" where
  "DepthFirstIterator scene_root = (None, scene_root) # getAllChildren scene_root"

text \<open>
  Removing old layer data: the first node in iteration order that has layer data is removed
  from its parent; should it be the root, \<^verbatim>\<open>getParent()\<close> is \<^verbatim>\<open>None\<close> and the call raises.
\<close>

fun remove_first_layer_child :: "node list \<Rightarrow> node list" where
  "remove_first_layer_child [] = []"
| "remove_first_layer_child (c # cs) =
     (if getLayerData (data c) then cs else c # remove_first_layer_child cs)"

fun remove_layer_below :: "node \<Rightarrow> node option"
  and remove_layer_in :: "node list \<Rightarrow> node list option" where
  "remove_layer_below (Node d cs) =
     (if \<exists>c \<in> set cs. getLayerData (data c) then Some (Node d (remove_first_layer_child cs))
      else map_option (Node d) (remove_layer_in cs))"
| "remove_layer_in [] = None"
| "remove_layer_in (c # cs) =
     (case remove_layer_below c of
        Some c' \<Rightarrow> Some (c' # cs)
      | None \<Rightarrow> map_option ((#) c) (remove_layer_in cs))"

definition remove_old_layer_data :: "node \<Rightarrow> py_error + node" where
  "remove_old_layer_data scene_root =
     (if getLayerData (data scene_root) then Inl AttributeError
      else (case remove_layer_below scene_root of Some scene_root' \<Rightarrow> Inr scene_root' | None \<Rightarrow> Inr scene_root))"

section \<open>StartSliceJob\<close>

text \<open>The messages given to the socket.\<close>

record object_message =
  obj_id :: int
  obj_vertices :: "vertex list"
  obj_settings :: "(string \<times> string) list"

record object_list_message =
  objects :: "object_message list"
  list_settings :: "(string \<times> string) list"

datatype message = SettingList "(string \<times> string) list" | Slice "object_list_message list"

text \<open>
  The condition under which a node is put in a group: its type is \<^verbatim>\<open>SceneNode\<close>, it has mesh
  data, and the vertices of the mesh data are not \<^verbatim>\<open>None\<close>.
\<close>

definition has_vertices :: "node \<Rightarrow> bool" where
  "has_vertices n =
     (is_SceneNode (data n)
      \<and> (case getMeshData (data n) of None \<Rightarrow> False | Some m \<Rightarrow> m \<noteq> None))"

text \<open>
  The groups of the one-at-a-time sequence, from the nodes \<^verbatim>\<open>OneAtATimeIterator\<close> yields:
  a node outside the build area is skipped; else the node's children and the node itself,
  those with vertices, form a group unless none has.
\<close>

fun one_at_a_time_groups :: "placed_node list \<Rightarrow> placed_node list list" where
  "one_at_a_time_groups [] = []"
| "one_at_a_time_groups (pn # pns) =
     (if outside_buildarea (data (snd pn)) then one_at_a_time_groups pns
      else
        (let temp_list = filter (\<lambda>child. has_vertices (snd child)) (getAllChildren (snd pn) @ [pn])
         in if temp_list \<noteq> [] then temp_list # one_at_a_time_groups pns
            else one_at_a_time_groups pns))"

text \<open>
  The first part of \<^verbatim>\<open>run\<close>, up to \<^verbatim>\<open>releaseLock\<close>: the scene after the removal of old layer
  data, the groups and the log entries. \<^verbatim>\<open>OneAtATimeIterator\<close> (cura/OneAtATimeIterator.py)
  is not among the sources; the nodes it yields for a root are a parameter.
\<close>

definition object_groups ::
  "stack option \<Rightarrow> (node \<Rightarrow> placed_node list) \<Rightarrow> node
     \<Rightarrow> py_error + (node \<times> placed_node list list \<times> log_entry list)" where
  "object_groups app_stack OneAtATimeIterator scene_root =
     (case remove_old_layer_data scene_root of
        Inl e \<Rightarrow> Inl e
      | Inr scene_root1 \<Rightarrow>
          (case app_stack of
             None \<Rightarrow> Inl AttributeError
           | Some g \<Rightarrow>
               if getProperty_value g ''print_sequence'' = PStr ''one_at_a_time'' then
                 (let groups = one_at_a_time_groups (OneAtATimeIterator scene_root1)
                  in Inr (scene_root1, groups,
                          if length groups = 0
                          then [LogEntry ''w''
                                  ''No objects suitable for one at a time found, or no correct order found'' []]
                          else []))
               else
                 (let temp_list =
                        filter (\<lambda>pn. has_vertices (snd pn) \<and> \<not> outside_buildarea (data (snd pn)))
                          (DepthFirstIterator scene_root1)
                  in Inr (scene_root1, if temp_list \<noteq> [] then [temp_list] else [], []))))"

text \<open>
  \<^verbatim>\<open>_handlePerObjectSettings\<close>: the settings of the message after the call, the values of the
  profile added first, then the per-object settings, each as the bytes of its text; or the
  exception of an encoding. \<open>add_settings\<close> is each of its two loops.
\<close>

fun add_settings ::
  "(string \<times> pyval) list \<Rightarrow> (string \<times> string) list \<Rightarrow> py_error + (string \<times> string) list" where
  "add_settings [] settings = Inr settings"
| "add_settings ((key, v) # items) settings =
     (case encode (py_str v) of
        Inl e \<Rightarrow> Inl e
      | Inr bytes \<Rightarrow> add_settings items (settings @ [(key, bytes)]))"

definition handlePerObjectSettings ::
  "node \<Rightarrow> (string \<times> string) list \<Rightarrow> py_error + (string \<times> string) list" where
  "handlePerObjectSettings n settings =
     (case (case getProfile (data n) of
              None \<Rightarrow> Inr settings
            | Some profile \<Rightarrow> add_settings profile settings) of
        Inl e \<Rightarrow> Inl e
      | Inr settings1 \<Rightarrow>
          (case node_getAllSettingValues (data n) of
             None \<Rightarrow> Inr settings1
           | Some object_settings \<Rightarrow>
               if object_settings = [] then Inr settings1
               else add_settings object_settings settings1))"

text \<open>
  The body of the loop over the objects of a group: the mesh transformed to world space, the
  columns 1 and 2 of the vertex array exchanged, then column 1 multiplied by \<open>-1\<close>.
\<close>

definition swap_columns :: "vertex \<Rightarrow> vertex" where
  "swap_columns v = (case v of (c0, c1, c2) \<Rightarrow> (c0, c2, c1))"

definition negate_column_1 :: "vertex \<Rightarrow> vertex" where
  "negate_column_1 v = (case v of (c0, c1, c2) \<Rightarrow> (c0, c1 * (- 1), c2))"

definition add_object :: "node \<Rightarrow> py_error + object_message" where
  "add_object current_object =
     (case getMeshData (data current_object) of
        None \<Rightarrow> Inl AttributeError
      | Some None \<Rightarrow> Inl IndexError
      | Some (Some vertices) \<Rightarrow>
          (let mesh_vertices = map (getWorldTransformation (data current_object)) vertices;
               verts = map negate_column_1 (map swap_columns mesh_vertices)
           in case handlePerObjectSettings current_object [] of
                Inl e \<Rightarrow> Inl e
              | Inr settings \<Rightarrow>
                  Inr \<lparr>obj_id = node_id (data current_object), obj_vertices = verts,
                       obj_settings = settings\<rparr>))"

fun add_objects :: "placed_node list \<Rightarrow> py_error + object_message list" where
  "add_objects [] = Inr []"
| "add_objects (pn # pns) =
     (case add_object (snd pn) of
        Inl e \<Rightarrow> Inl e
      | Inr obj \<Rightarrow>
          (case add_objects pns of Inl e \<Rightarrow> Inl e | Inr objs \<Rightarrow> Inr (obj # objs)))"

text \<open>The body of the loop over the groups.\<close>

definition add_object_list :: "placed_node list \<Rightarrow> py_error + object_list_message" where
  "add_object_list object_group =
     (case object_group of
        [] \<Rightarrow> Inl IndexError
      | first # _ \<Rightarrow>
          (case fst first of
             None \<Rightarrow> Inl AttributeError
           | Some parent \<Rightarrow>
               (case (if isGroup (data parent) then handlePerObjectSettings parent []
                      else Inr []) of
                  Inl e \<Rightarrow> Inl e
                | Inr group_settings \<Rightarrow>
                    (case add_objects object_group of
                       Inl e \<Rightarrow> Inl e
                     | Inr objs \<Rightarrow> Inr \<lparr>objects = objs, list_settings = group_settings\<rparr>))))"

fun add_object_lists :: "placed_node list list \<Rightarrow> py_error + object_list_message list" where
  "add_object_lists [] = Inr []"
| "add_object_lists (object_group # groups) =
     (case add_object_list object_group of
        Inl e \<Rightarrow> Inl e
      | Inr l \<Rightarrow>
          (case add_object_lists groups of Inl e \<Rightarrow> Inl e | Inr ls \<Rightarrow> Inr (l # ls)))"

text \<open>
  \<^verbatim>\<open>_getAllChildSettingValues\<close> and \<^verbatim>\<open>_getAllSettingValues\<close>. A dictionary keeps its keys in
  the order of their first assignment, and assigning to a key it has replaces the value in
  place: \<open>AList.update\<close>.
\<close>

definition update_all :: "(string \<times> pyval) list \<Rightarrow> (string \<times> pyval) list \<Rightarrow> (string \<times> pyval) list" where
  "update_all items setting_values = fold (\<lambda>(k, v). AList.update k v) items setting_values"

fun getAllChildSettingValues :: "stack \<Rightarrow> setting_definition \<Rightarrow> (string \<times> pyval) list" where
  "getAllChildSettingValues st (Definition k cs) =
     fold (\<lambda>child setting_values.
             update_all (getAllChildSettingValues st child)
               (AList.update (def_key child) (getProperty_value st (def_key child)) setting_values))
       cs []"

definition getAllSettingValues :: "stack \<Rightarrow> (string \<times> pyval) list" where
  "getAllSettingValues st =
     fold (\<lambda>d setting_values.
             update_all (getAllChildSettingValues st d)
               (AList.update (def_key d) (getProperty_value st (def_key d)) setting_values))
       (concat (map definitions (filter is_DefinitionContainer (getContainers st)))) []"

text \<open>\<^verbatim>\<open>sub not in v\<close>: a test for a substring when \<open>v\<close> is a string, a \<^verbatim>\<open>TypeError\<close> otherwise.\<close>

fun starts_with :: "string \<Rightarrow> string \<Rightarrow> bool" where
  "starts_with [] s = True"
| "starts_with (c # cs) [] = False"
| "starts_with (c # cs) (d # ds) = (c = d \<and> starts_with cs ds)"

fun contains :: "string \<Rightarrow> string \<Rightarrow> bool" where
  "contains sub [] = (sub = [])"
| "contains sub (c # cs) = (starts_with sub (c # cs) \<or> contains sub cs)"

definition py_not_in :: "string \<Rightarrow> pyval \<Rightarrow> py_error + bool" where
  "py_not_in sub v = (case v of PStr s \<Rightarrow> Inr (\<not> contains sub s) | _ \<Rightarrow> Inl TypeError)"

text \<open>
  \<^verbatim>\<open>_sendGlobalSettings\<close>: the settings of the \<^verbatim>\<open>SettingList\<close> message it sends and the entries
  it logs, or the exception it raises before anything is sent. \<^verbatim>\<open>self._stack\<close> being \<^verbatim>\<open>None\<close>
  is an \<^verbatim>\<open>AttributeError\<close>; \<^verbatim>\<open>settings["machine_start_gcode"]\<close> raises \<^verbatim>\<open>KeyError\<close> for a
  missing key. \<open>add_setting_messages\<close> is its loop over the items of the settings.
\<close>

definition is_gcode_key :: "string \<Rightarrow> bool" where
  "is_gcode_key k = (k = ''machine_start_gcode'' \<or> k = ''machine_end_gcode'')"

fun add_setting_messages ::
  "field_finisher \<Rightarrow> (string \<times> pyval) list \<Rightarrow> (string \<times> pyval) list
     \<Rightarrow> py_error + ((string \<times> string) list \<times> log_entry list)" where
  "add_setting_messages finish settings [] = Inr ([], [])"
| "add_setting_messages finish settings ((key, v) # items) =
     (case (if is_gcode_key key then expandGcodeTokens finish key v settings
            else (encode (py_str v), [])) of
        (Inl e, log1) \<Rightarrow> Inl e
      | (Inr bytes, log1) \<Rightarrow>
          (case add_setting_messages finish settings items of
             Inl e \<Rightarrow> Inl e
           | Inr (messages, log2) \<Rightarrow> Inr ((key, bytes) # messages, log1 @ log2)))"

definition sendGlobalSettings ::
  "field_finisher \<Rightarrow> stack option \<Rightarrow> py_error + ((string \<times> string) list \<times> log_entry list)" where
  "sendGlobalSettings finish job_stack =
     (case job_stack of
        None \<Rightarrow> Inl AttributeError
      | Some st \<Rightarrow>
          (let settings = getAllSettingValues st in
           case map_of settings ''machine_start_gcode'' of
             None \<Rightarrow> Inl KeyError
           | Some start_gcode \<Rightarrow>
               (case py_not_in ''{material_bed_temperature}'' start_gcode of
                  Inl e \<Rightarrow> Inl e
                | Inr bed \<Rightarrow>
                    (case py_not_in ''{material_print_temperature}'' start_gcode of
                       Inl e \<Rightarrow> Inl e
                     | Inr print \<Rightarrow>
                         (let settings2 =
                                AList.update ''material_print_temp_prepend'' (PBool print)
                                  (AList.update ''material_bed_temp_prepend'' (PBool bed) settings)
                          in add_setting_messages finish settings2 settings2)))))"

text \<open>
  What a run of the job leaves: the scene, the messages sent through the socket in order, the
  log entries, and the result of the job (\<open>None\<close> when \<^verbatim>\<open>setResult\<close> was not called).
\<close>

record job_state =
  job_scene :: node
  job_sent :: "message list"
  job_log :: "log_entry list"
  job_result :: "bool option"

text \<open>
  \<^verbatim>\<open>run\<close>, from the global stack of the application, \<^verbatim>\<open>self._stack\<close>, the nodes of
  \<^verbatim>\<open>OneAtATimeIterator\<close> and the root of the scene. \<open>Inl e\<close> is the exception \<open>e\<close> leaving
  \<^verbatim>\<open>run\<close>. Yielding the thread and the scene lock have no effect on the result.
\<close>

definition run ::
  "field_finisher \<Rightarrow> stack option \<Rightarrow> stack option \<Rightarrow> (node \<Rightarrow> placed_node list) \<Rightarrow> node
     \<Rightarrow> py_error + job_state" where
  "run finish app_stack job_stack OneAtATimeIterator scene_root =
     (case object_groups app_stack OneAtATimeIterator scene_root of
        Inl e \<Rightarrow> Inl e
      | Inr (scene_root1, groups, log0) \<Rightarrow>
          if groups = [] then
            Inr \<lparr>job_scene = scene_root1, job_sent = [], job_log = log0, job_result = None\<rparr>
          else
            (case sendGlobalSettings finish job_stack of
               Inl e \<Rightarrow> Inl e
             | Inr (settings, log1) \<Rightarrow>
                 (case add_object_lists groups of
                    Inl e \<Rightarrow> Inl e
                  | Inr object_lists \<Rightarrow>
                      Inr \<lparr>job_scene = scene_root1,
                           job_sent = [SettingList settings, Slice object_lists],
                           job_log = log0 @ log1
                             @ [LogEntry ''d'' ''Sending data to engine for slicing.'' [],
                                LogEntry ''d'' ''Sending data to engine is completed'' []],
                           job_result = Some True\<rparr>)))"

section \<open>Notions used to state the properties of the slice job\<close>

text \<open>A dictionary of a decoration, flattened to name/value pairs; nothing for \<^verbatim>\<open>None\<close>.\<close>

definition flattened :: "(string \<times> pyval) list option \<Rightarrow> (string \<times> string) list" where
  "flattened d = (case d of None \<Rightarrow> [] | Some items \<Rightarrow> map (\<lambda>(k, v). (k, py_str v)) items)"

text \<open>
  The keys a definition defines, itself and its descendants; and the keys of all definitions
  of the definition containers of a stack.
\<close>

fun definition_keys :: "setting_definition \<Rightarrow> string set" where
  "definition_keys (Definition k cs) = insert k (\<Union> (definition_keys ` set cs))"

definition stack_definition_keys :: "stack \<Rightarrow> string set" where
  "stack_definition_keys st =
     \<Union> (definition_keys `
          set (concat (map definitions (filter is_DefinitionContainer (getContainers st)))))"


section \<open>Templates of setting tokens\<close>

text \<open>
  A template written as pieces of text without braces, each followed by a token \<^verbatim>\<open>{key}\<close>,
  and a last piece of text. A setting key that can stand in a token has a character of ASCII
  that is not a digit, as every identifier has, so that it is not a number; and it has none
  of the characters the format syntax reads: braces, \<^verbatim>\<open>!\<close>, \<^verbatim>\<open>:\<close>, \<^verbatim>\<open>.\<close> and \<^verbatim>\<open>[\<close>.
\<close>

definition plain_text :: "string \<Rightarrow> bool" where
  "plain_text t = list_all (\<lambda>c. \<not> is_brace c) t"

definition setting_key :: "string \<Rightarrow> bool" where
  "setting_key key =
     (list_ex (\<lambda>c. is_ascii c \<and> \<not> is_digit c) key
      \<and> list_all (\<lambda>c. c \<notin> set ''{}!:.['') key)"

definition template :: "(string \<times> string) list \<Rightarrow> string \<Rightarrow> string" where
  "template tokens tail = concat (map (\<lambda>(t, key). t @ ''{'' @ key @ ''}'') tokens) @ tail"

text \<open>
  What the specification says of such a template: the token of a key of the settings becomes
  the text of its value, the token of another key stays and a warning is logged for it. And
  the warning of the handler of \<^verbatim>\<open>_expandGcodeTokens\<close>.
\<close>

definition expansion :: "(string \<times> pyval) list \<Rightarrow> (string \<times> string) list \<Rightarrow> string \<Rightarrow> string" where
  "expansion settings tokens tail =
     concat (map (\<lambda>(t, key). t @ (case map_of settings key of
                                      Some v \<Rightarrow> py_str v
                                    | None \<Rightarrow> ''{'' @ key @ ''}'')) tokens) @ tail"

definition warnings :: "(string \<times> pyval) list \<Rightarrow> (string \<times> string) list \<Rightarrow> log_entry list" where
  "warnings settings tokens =
     concat (map (\<lambda>(t, key). case map_of settings key of
                                Some v \<Rightarrow> []
                              | None \<Rightarrow>
                                  [LogEntry ''w''
                                     ''Unable to replace '%s' placeholder in start/end gcode''
                                     [key]]) tokens)"

definition fallback_warning :: log_entry where
  "fallback_warning =
     LogEntry ''w'' ''Unabled to do token replacement on start/end gcode %s'' []"

section \<open>Example configurations\<close>

text \<open>Containers holding, for one key, a literal or a function; and one holding nothing.\<close>

definition literal_container :: "string \<Rightarrow> container" where
  "literal_container k =
     \<lparr>has_getProperty = True, raw_values = [(k, LiteralValue)],
      is_DefinitionContainer = False, definitions = []\<rparr>"

definition function_container :: "string \<Rightarrow> string list \<Rightarrow> container" where
  "function_container k used =
     \<lparr>has_getProperty = True, raw_values = [(k, SettingFunction used)],
      is_DefinitionContainer = True, definitions = [Definition k []]\<rparr>"

definition empty_container :: container where
  "empty_container =
     \<lparr>has_getProperty = True, raw_values = [],
      is_DefinitionContainer = False, definitions = []\<rparr>"

text \<open>
  The properties of a key a user has set: state \<^verbatim>\<open>User\<close>, enabled, no \<^verbatim>\<open>resolve\<close>, settable
  per extruder, with the given \<^verbatim>\<open>limit_to_extruder\<close>.
\<close>

definition user_props :: "pyval \<Rightarrow> int option \<Rightarrow> setting_props" where
  "user_props v limit =
     \<lparr>p_value = v, p_state = Some User, p_enabled = True, p_resolve = PNone,
      p_settable_per_extruder = True, p_limit_to_extruder = limit\<rparr>"

text \<open>
  A machine with the given containers and extruder count, and the given properties for its
  key \<^verbatim>\<open>infill_sparse_density\<close>.
\<close>

definition machine_with :: "container list \<Rightarrow> int \<Rightarrow> setting_props \<Rightarrow> stack" where
  "machine_with cs extruder_count props =
     Stack ''machine'' cs None
       [(''machine_extruder_count'', user_props (PInt extruder_count) None),
        (''infill_sparse_density'', props)]
       [''machine_extruder_count'', ''infill_sparse_density'', ''layer_height'']"

text \<open>
  The usual machine: the key has a literal in the top container and, below it, a function of
  \<^verbatim>\<open>layer_height\<close>.
\<close>

definition machine :: "int \<Rightarrow> setting_props \<Rightarrow> stack" where
  "machine extruder_count props =
     machine_with
       [literal_container ''infill_sparse_density'',
        function_container ''infill_sparse_density'' [''layer_height'']]
       extruder_count props"

text \<open>
  A machine whose top container holds nothing for the key; below it a function that uses
  only \<^verbatim>\<open>grid\<close>, which is an option of an enum and not a setting, and below that a function
  of \<^verbatim>\<open>layer_height\<close>.
\<close>

definition enum_function_machine :: stack where
  "enum_function_machine =
     machine_with
       [empty_container,
        function_container ''infill_sparse_density'' [''grid''],
        function_container ''infill_sparse_density'' [''layer_height'']]
       1 (user_props (PInt 20) None)"

definition extruder :: "string \<Rightarrow> stack \<Rightarrow> stack" where
  "extruder name g =
     Stack name [literal_container ''infill_sparse_density''] (Some g)
       [(''infill_sparse_density'', user_props (PInt 20) None)]
       [''machine_extruder_count'', ''infill_sparse_density'', ''layer_height'']"

definition world :: "stack \<Rightarrow> env" where
  "world g =
     \<lparr>getGlobalContainerStack = Some g,
      extruder_stacks = [extruder ''extruder_0'' g, extruder ''extruder_1'' g],
      active_extruder_index = 1,
      registered_stacks = [extruder ''extruder_0'' g, extruder ''extruder_1'' g]\<rparr>"

text \<open>A provider freshly bound to \<^verbatim>\<open>infill_sparse_density\<close>, before its first resolution.\<close>

definition fresh_provider :: provider where
  "fresh_provider =
     \<lparr>prov_key = ''infill_sparse_density'', global_container_stack = None,
      containerStackId = None, prov_stack = None, stackLevels = [],
      should_show_inherit = False\<rparr>"

text \<open>The same provider once bound to a stack under the id \<^verbatim>\<open>"global"\<close>.\<close>

definition bound_provider :: "stack \<Rightarrow> provider" where
  "bound_provider st =
     fresh_provider\<lparr>containerStackId := Some ''global'', prov_stack := Some st\<rparr>"

section \<open>An example printer and scene\<close>

text \<open>
  A printer whose definition container defines the two g-code settings under a category, and
  the bed temperature. The start g-code refers to the bed temperature.
\<close>

definition value_props :: "pyval \<Rightarrow> setting_props" where
  "value_props v =
     \<lparr>p_value = v, p_state = None, p_enabled = True, p_resolve = PNone,
      p_settable_per_extruder = False, p_limit_to_extruder = None\<rparr>"

definition printer_with :: "setting_definition list \<Rightarrow> stack" where
  "printer_with defs =
     Stack ''printer''
       [\<lparr>has_getProperty = True, raw_values = [], is_DefinitionContainer = True,
         definitions = defs\<rparr>]
       None
       [(''print_sequence'', value_props (PStr ''all_at_once'')),
        (''machine_start_gcode'', value_props (PStr ''M140 S{material_bed_temperature}'')),
        (''machine_end_gcode'', value_props (PStr ''M104 S0'')),
        (''material_bed_temperature'', value_props (PInt 60))]
       [''print_sequence'', ''machine_start_gcode'', ''machine_end_gcode'',
        ''material_bed_temperature'']"

definition printer :: stack where
  "printer =
     printer_with
       [Definition ''machine_settings''
          [Definition ''machine_start_gcode'' [], Definition ''machine_end_gcode'' []],
        Definition ''material_bed_temperature'' []]"

text \<open>
  A scene: under the root a group node with the profile \<^verbatim>\<open>{"layer_height": "0.2"}\<close>, and in the
  group a cube, reduced to the single vertex \<open>(1, 2, 3)\<close>, with the profile
  \<^verbatim>\<open>{"speed": 40}\<close> and the per-object setting \<^verbatim>\<open>{"speed": 50}\<close>. All nodes are at the origin, untransformed.
\<close>

definition plain_node :: "int \<Rightarrow> node_data" where
  "plain_node i =
     \<lparr>node_id = i, is_SceneNode = True, getMeshData = None,
      getWorldTransformation = (\<lambda>v. v), outside_buildarea = False, getLayerData = False,
      isGroup = False, getProfile = None, node_getAllSettingValues = None\<rparr>"

definition cube :: node where
  "cube =
     Node ((plain_node 2)\<lparr>getMeshData := Some (Some [(1, 2, 3)]),
                           getProfile := Some [(''speed'', PInt 40)],
                           node_getAllSettingValues := Some [(''speed'', PInt 50)]\<rparr>) []"

definition group_node :: node where
  "group_node =
     Node ((plain_node 1)\<lparr>isGroup := True,
                           getProfile := Some [(''layer_height'', PStr ''0.2'')]\<rparr>) [cube]"

definition scene :: node where
  "scene = Node (plain_node 0) [group_node]"

definition empty_scene :: node where
  "empty_scene = Node (plain_node 0) []"

text \<open>
  A stand-in for the library's handling of fields that are more than a plain name, and one
  for \<^verbatim>\<open>OneAtATimeIterator\<close>; neither is reached in the examples.
\<close>

definition no_finisher :: field_finisher where
  "no_finisher get_value_of f auto_arg_index = (Inl ValueError, [])"

definition no_order :: "node \<Rightarrow> placed_node list" where
  "no_order scene_root = []"

text \<open>What the run of the job on this printer and scene leaves.\<close>

definition sliced_scene :: job_state where
  "sliced_scene =
     \<lparr>job_scene = scene,
      job_sent =
        [SettingList
           [(''machine_settings'', ''None''),
            (''machine_start_gcode'', ''M140 S60''),
            (''machine_end_gcode'', ''M104 S0''),
            (''material_bed_temperature'', ''60''),
            (''material_bed_temp_prepend'', ''False''),
            (''material_print_temp_prepend'', ''True'')],
         Slice
           [\<lparr>objects =
               [\<lparr>obj_id = 2, obj_vertices = [(1, - 3, 2)],
                 obj_settings = [(''speed'', ''40''), (''speed'', ''50'')]\<rparr>],
             list_settings = [(''layer_height'', ''0.2'')]\<rparr>]],
      job_log =
        [LogEntry ''d'' ''Sending data to engine for slicing.'' [],
         LogEntry ''d'' ''Sending data to engine is completed'' []],
      job_result = Some True\<rparr>"

section \<open>Properties of CuraPropertyProvider\<close>

lemmas example_defs = machine_with_def machine_def user_props_def
  world_def extruder_def fresh_provider_def bound_provider_def literal_container_def
  function_container_def empty_container_def

lemmas property_defs = getProperty_value_def getProperty_state_def getProperty_enabled_def
  getProperty_resolve_def getProperty_settable_per_extruder_def getProperty_limit_to_extruder_def
  getTop_def container_getProperty_def isinstance_SettingFunction_def uses_setting_key_def

text \<open>
  C8. For a bound key and an existing global stack whose \<^verbatim>\<open>machine_extruder_count\<close> value is at
  most 1, \<^verbatim>\<open>_updateStack\<close> returns with the target set to the global stack (the id
  \<^verbatim>\<open>"global"\<close>, bound to the global stack when the id changes), whatever the key's
  \<^verbatim>\<open>settable_per_extruder\<close> and \<^verbatim>\<open>limit_to_extruder\<close> properties are.
\<close>

theorem single_extruder_targets_global:
  assumes "prov_key p \<noteq> []"
    and "getGlobalContainerStack e = Some g"
    and "py_le_1 (getProperty_value g ''machine_extruder_count'') = Inr True"
  shows "\<exists>p'. updateStack e p = Inr p' \<and> containerStackId p' = Some ''global''
           \<and> (containerStackId p \<noteq> Some ''global'' \<longrightarrow> prov_stack p' = Some g)"
  using assms by (simp add: updateStack_def setContainerStackId_def Let_def)

theorem single_extruder_targets_global_witness:
  "prov_key fresh_provider \<noteq> []
   \<and> getGlobalContainerStack (world (machine 1 (user_props (PInt 20) (Some 0)))) = Some (machine 1 (user_props (PInt 20) (Some 0)))
   \<and> getProperty_settable_per_extruder (machine 1 (user_props (PInt 20) (Some 0))) (prov_key fresh_provider)
   \<and> getProperty_limit_to_extruder (machine 1 (user_props (PInt 20) (Some 0))) (prov_key fresh_provider) = Some 0
   \<and> py_le_1 (getProperty_value (machine 1 (user_props (PInt 20) (Some 0))) ''machine_extruder_count'') = Inr True
   \<and> (\<exists>p'. updateStack (world (machine 1 (user_props (PInt 20) (Some 0)))) fresh_provider = Inr p'
          \<and> containerStackId p' = Some ''global''
          \<and> (containerStackId fresh_provider \<noteq> Some ''global''
               \<longrightarrow> prov_stack p' = Some (machine 1 (user_props (PInt 20) (Some 0)))))"
proof -
  have k: "prov_key fresh_provider \<noteq> []"
    by (simp add: fresh_provider_def)
  have g: "getGlobalContainerStack (world (machine 1 (user_props (PInt 20) (Some 0)))) = Some (machine 1 (user_props (PInt 20) (Some 0)))"
    by (simp add: world_def)
  have n: "py_le_1 (getProperty_value (machine 1 (user_props (PInt 20) (Some 0))) ''machine_extruder_count'') = Inr True"
    by (simp add: py_le_1_def example_defs property_defs)
  have s: "getProperty_settable_per_extruder (machine 1 (user_props (PInt 20) (Some 0))) (prov_key fresh_provider)"
    by (simp add: example_defs property_defs)
  have l: "getProperty_limit_to_extruder (machine 1 (user_props (PInt 20) (Some 0))) (prov_key fresh_provider) = Some 0"
    by (simp add: example_defs property_defs)
  from single_extruder_targets_global [OF k g n] k g n s l show ?thesis
    by simp
qed

text \<open>
  C7. With a bound stack, \<^verbatim>\<open>_determineInherit\<close> returns \<^verbatim>\<open>False\<close>, and \<^verbatim>\<open>shouldShowInherit\<close> is
  false after \<^verbatim>\<open>_updateShouldShowInherit\<close>, whenever the key's \<^verbatim>\<open>resolve\<close> is not \<^verbatim>\<open>None\<close>, or its
  \<^verbatim>\<open>state\<close> is not \<^verbatim>\<open>User\<close>, or it is not enabled, or the top container's raw value for the key
  is a \<^verbatim>\<open>SettingFunction\<close>; the stack's other containers, next stacks and keys are arbitrary.
\<close>

theorem guards_hide_inherit:
  assumes "prov_stack p = Some st"
    and "getProperty_resolve st (prov_key p) \<noteq> PNone
       \<or> getProperty_state st (prov_key p) \<noteq> Some User
       \<or> \<not> getProperty_enabled st (prov_key p)
       \<or> (\<exists>c cs used. getContainers st = c # cs
             \<and> container_getProperty c (prov_key p) = Inr (SettingFunction used))"
  shows "determineInherit p = Inr False
       \<and> (\<exists>p'. updateShouldShowInherit p = Inr p' \<and> shouldShowInherit p' = False)"
proof -
  have d: "determineInherit p = Inr False"
    using assms
    by (auto simp: determineInherit_def getTop_def isinstance_SettingFunction_def)
  then show ?thesis
    by (simp add: updateShouldShowInherit_def shouldShowInherit_def)
qed

theorem guards_hide_inherit_witness:
  "prov_stack (bound_provider (machine 1 ((user_props (PInt 20) None)\<lparr>p_enabled := False\<rparr>)))
     = Some (machine 1 ((user_props (PInt 20) None)\<lparr>p_enabled := False\<rparr>))
   \<and> \<not> getProperty_enabled (machine 1 ((user_props (PInt 20) None)\<lparr>p_enabled := False\<rparr>))
         (prov_key (bound_provider (machine 1 ((user_props (PInt 20) None)\<lparr>p_enabled := False\<rparr>))))
   \<and> determineInherit (bound_provider (machine 1 ((user_props (PInt 20) None)\<lparr>p_enabled := False\<rparr>)))
       = Inr False
   \<and> determineInherit (bound_provider (machine 1 (user_props (PInt 20) None))) = Inr True"
proof -
  let ?st = "machine 1 ((user_props (PInt 20) None)\<lparr>p_enabled := False\<rparr>)"
  have s: "prov_stack (bound_provider ?st) = Some ?st"
    by (simp add: bound_provider_def)
  have g: "\<not> getProperty_enabled ?st (prov_key (bound_provider ?st))"
    by (simp add: example_defs property_defs)
  have t: "determineInherit (bound_provider (machine 1 (user_props (PInt 20) None))) = Inr True"
    by (simp add: determineInherit_def example_defs property_defs)
  from guards_hide_inherit [of "bound_provider ?st" ?st] s g t show ?thesis
    by simp
qed

subsection \<open>The container walk\<close>

text \<open>
  The flags the scan ends with, started with \<^verbatim>\<open>has_setting_function\<close> false: the first is
  set exactly when some container holds a qualifying function, the second when a container
  before the first such one holds a fixed value.
\<close>

lemma inherit_scan_flags:
  "inherit_scan ks k cs False n =
     ((\<exists>c \<in> set cs. qualifying_function_layer ks k c),
      n \<or> (\<exists>c \<in> set (takeWhile (\<lambda>c. \<not> qualifying_function_layer ks k c) cs). fixed_value_layer ks k c))"
proof (induction cs arbitrary: n)
  case Nil
  show ?case by simp
next
  case (Cons c cs)
  show ?case
  proof (cases "container_getProperty c k")
    case (Inl e)
    then show ?thesis
      by (simp add: Cons.IH qualifying_function_layer_def fixed_value_layer_def)
  next
    case (Inr v)
    then show ?thesis
      by (cases v)
        (auto simp: Cons.IH qualifying_function_layer_def fixed_value_layer_def
          isinstance_SettingFunction_def uses_setting_key_def Let_def)
  qed
qed

text \<open>
  C2, as the code has it. For a key that passes the four guards, \<^verbatim>\<open>_determineInherit\<close> returns
  true exactly when the walk over the containers of the target stack and of its next stacks,
  in priority order and stopping at the first qualifying function, finds such a function and,
  before it, a layer with a fixed value: a literal, or a function none of whose used keys is a
  key of the stack. Hence a stack with only literals gives false, a stack whose functions use
  no setting key gives false, and a literal above a qualifying function gives true.
\<close>

theorem inherit_iff_function_below_fixed_value:
  assumes "prov_stack p = Some st"
    and "getProperty_resolve st (prov_key p) = PNone"
    and "getProperty_state st (prov_key p) = Some User"
    and "getProperty_enabled st (prov_key p)"
    and "getContainers st = c # cs"
    and "container_getProperty c (prov_key p) = Inr v"
    and "\<not> isinstance_SettingFunction v"
  shows "determineInherit p =
           Inr (walk_finds_function_and_fixed_value (getAllKeys st) (prov_key p) (chain_containers st))"
  using assms
  by (simp add: determineInherit_def getTop_def inherit_scan_flags
      walk_finds_function_and_fixed_value_def)

text \<open>
  The theorem at three stacks: a literal above a function of \<^verbatim>\<open>layer_height\<close> (true), a
  literal alone (false), and a literal above a function that uses only the enum option
  \<^verbatim>\<open>grid\<close> (false).
\<close>

theorem inherit_iff_function_below_fixed_value_witness:
  "determineInherit
     (bound_provider (machine_with
        [literal_container ''infill_sparse_density'',
         function_container ''infill_sparse_density'' [''layer_height'']]
        1 (user_props (PInt 20) None))) = Inr True
   \<and> determineInherit
     (bound_provider (machine_with [literal_container ''infill_sparse_density'']
        1 (user_props (PInt 20) None))) = Inr False
   \<and> determineInherit
     (bound_provider (machine_with
        [literal_container ''infill_sparse_density'',
         function_container ''infill_sparse_density'' [''grid'']]
        1 (user_props (PInt 20) None))) = Inr False"
proof -
  let ?k = "''infill_sparse_density''"
  let ?lit = "literal_container ?k"
  have a: "determineInherit (bound_provider (machine_with (?lit # cs) 1 (user_props (PInt 20) None)))
      = Inr (walk_finds_function_and_fixed_value
               [''machine_extruder_count'', ''infill_sparse_density'', ''layer_height''] ?k
               (?lit # cs))" for cs
    using inherit_iff_function_below_fixed_value
      [of "bound_provider (machine_with (?lit # cs) 1 (user_props (PInt 20) None))"
          "machine_with (?lit # cs) 1 (user_props (PInt 20) None)" ?lit cs LiteralValue]
    by (simp add: example_defs property_defs)
  show ?thesis
    unfolding a
    by (simp add: walk_finds_function_and_fixed_value_def qualifying_function_layer_def
        fixed_value_layer_def literal_container_def function_container_def property_defs)
qed

text \<open>
  C2, as the specification words it, fails: on the machine whose top container holds nothing
  for the key, with a function of the enum option \<^verbatim>\<open>grid\<close> above a function of
  \<^verbatim>\<open>layer_height\<close>, the key passes the guards and \<^verbatim>\<open>_determineInherit\<close> returns true, although
  no container holds a literal.
\<close>

theorem inherit_without_literal_layer:
  "prov_stack (bound_provider enum_function_machine) = Some enum_function_machine
   \<and> prov_key (bound_provider enum_function_machine) = ''infill_sparse_density''
   \<and> getProperty_resolve enum_function_machine ''infill_sparse_density'' = PNone
   \<and> getProperty_state enum_function_machine ''infill_sparse_density'' = Some User
   \<and> getProperty_enabled enum_function_machine ''infill_sparse_density''
   \<and> map_option (\<lambda>c. container_getProperty c ''infill_sparse_density'') (getTop enum_function_machine)
       = Some (Inr NoValue)
   \<and> determineInherit (bound_provider enum_function_machine) = Inr True
   \<and> \<not> walk_finds_function_and_literal (getAllKeys enum_function_machine) ''infill_sparse_density''
         (chain_containers enum_function_machine)"
  by (simp add: determineInherit_def enum_function_machine_def example_defs property_defs
      qualifying_function_layer_def literal_layer_def walk_finds_function_and_literal_def)


subsection \<open>Stack resolution\<close>

text \<open>
  C3. On a machine with two extruders, for a key settable per extruder whose
  \<^verbatim>\<open>limit_to_extruder\<close> is 5, where no extruder 5 exists, \<^verbatim>\<open>_updateStack\<close> does not log a warning
  and return: the name \<^verbatim>\<open>Logger\<close> is not bound in the module, and the call raises
  \<^verbatim>\<open>NameError\<close>. The target is unchanged when the exception leaves.
\<close>

theorem missing_extruder_raises_NameError:
  "updateStack (world (machine 2 (user_props (PInt 20) (Some 5)))) fresh_provider
     = Inl (NameError,
            fresh_provider\<lparr>global_container_stack := Some (machine 2 (user_props (PInt 20) (Some 5)))\<rparr>)"
  by (simp add: updateStack_def example_defs property_defs py_le_1_def limit_index_def
      getExtruderStack_def)

text \<open>Facts about \<^verbatim>\<open>setContainerStackId\<close> and \<^verbatim>\<open>_updateShouldShowInherit\<close>.\<close>

lemma setContainerStackId_id [simp]:
  "containerStackId (setContainerStackId e sid p) = sid"
  by (simp add: setContainerStackId_def Let_def)

lemma setContainerStackId_inherit [simp]:
  "should_show_inherit (setContainerStackId e sid p) = should_show_inherit p"
  by (simp add: setContainerStackId_def Let_def)

lemma setContainerStackId_key [simp]:
  "prov_key (setContainerStackId e sid p) = prov_key p"
  by (simp add: setContainerStackId_def Let_def)

lemma setContainerStackId_global [simp]:
  "global_container_stack (setContainerStackId e sid p) = global_container_stack p"
  by (simp add: setContainerStackId_def Let_def)

lemma setContainerStackId_noop:
  "containerStackId q = sid \<Longrightarrow> setContainerStackId e sid q = q"
  by (simp add: setContainerStackId_def)

lemma determineInherit_flag [simp]:
  "determineInherit (p\<lparr>should_show_inherit := b\<rparr>) = determineInherit p"
  by (simp add: determineInherit_def cong: option.case_cong sum.case_cong if_cong)

lemma set_global_same:
  "global_container_stack p = g \<Longrightarrow> p\<lparr>global_container_stack := g\<rparr> = p"
  by (cases p) simp

lemma updateShouldShowInherit_eq:
  "updateShouldShowInherit p =
     (case determineInherit p of Inl e \<Rightarrow> Inl e | Inr b \<Rightarrow> Inr (p\<lparr>should_show_inherit := b\<rparr>))"
  by (cases p) (simp add: updateShouldShowInherit_def split: sum.splits)

text \<open>\<^verbatim>\<open>_updateStack\<close>, branch by branch.\<close>

lemma updateStack_idle:
  "prov_key q = [] \<or> getGlobalContainerStack e = None \<Longrightarrow> updateStack e q = Inr q"
  by (auto simp: updateStack_def)

lemma updateStack_count_raises:
  "prov_key q \<noteq> [] \<Longrightarrow> getGlobalContainerStack e = Some g
   \<Longrightarrow> py_le_1 (getProperty_value g ''machine_extruder_count'') = Inl err
   \<Longrightarrow> updateStack e q = Inl (err, q\<lparr>global_container_stack := Some g\<rparr>)"
  by (simp add: updateStack_def)

lemma updateStack_single:
  "prov_key q \<noteq> [] \<Longrightarrow> getGlobalContainerStack e = Some g
   \<Longrightarrow> py_le_1 (getProperty_value g ''machine_extruder_count'') = Inr True
   \<Longrightarrow> updateStack e q
       = Inr (setContainerStackId e (Some ''global'') (q\<lparr>global_container_stack := Some g\<rparr>))"
  by (simp add: updateStack_def)

lemma updateStack_not_settable:
  "prov_key q \<noteq> [] \<Longrightarrow> getGlobalContainerStack e = Some g
   \<Longrightarrow> py_le_1 (getProperty_value g ''machine_extruder_count'') = Inr False
   \<Longrightarrow> \<not> getProperty_settable_per_extruder g (prov_key q)
   \<Longrightarrow> updateStack e q
       = Inr (setContainerStackId e (Some ''global'') (q\<lparr>global_container_stack := Some g\<rparr>))"
  by (simp add: updateStack_def)

lemma updateStack_limited:
  "prov_key q \<noteq> [] \<Longrightarrow> getGlobalContainerStack e = Some g
   \<Longrightarrow> py_le_1 (getProperty_value g ''machine_extruder_count'') = Inr False
   \<Longrightarrow> getProperty_settable_per_extruder g (prov_key q)
   \<Longrightarrow> limit_index (getProperty_limit_to_extruder g (prov_key q)) = Some i
   \<Longrightarrow> updateStack e q
       = (case getExtruderStack e i of
            Some extruder_stack \<Rightarrow>
              Inr (setContainerStackId e (Some (getId extruder_stack))
                     (q\<lparr>global_container_stack := Some g\<rparr>))
          | None \<Rightarrow> Inl (NameError, q\<lparr>global_container_stack := Some g\<rparr>))"
  by (simp add: updateStack_def Let_def)

lemma updateStack_active:
  "prov_key q \<noteq> [] \<Longrightarrow> getGlobalContainerStack e = Some g
   \<Longrightarrow> py_le_1 (getProperty_value g ''machine_extruder_count'') = Inr False
   \<Longrightarrow> getProperty_settable_per_extruder g (prov_key q)
   \<Longrightarrow> limit_index (getProperty_limit_to_extruder g (prov_key q)) = None
   \<Longrightarrow> updateStack e q
       = (case determineInherit
                 (setContainerStackId e (activeExtruderStackId e)
                    (q\<lparr>global_container_stack := Some g\<rparr>)) of
            Inl err \<Rightarrow>
              Inl (err, setContainerStackId e (activeExtruderStackId e)
                          (q\<lparr>global_container_stack := Some g\<rparr>))
          | Inr b \<Rightarrow>
              Inr ((setContainerStackId e (activeExtruderStackId e)
                      (q\<lparr>global_container_stack := Some g\<rparr>))\<lparr>should_show_inherit := b\<rparr>))"
  by (simp add: updateStack_def Let_def updateShouldShowInherit_eq split: sum.splits)


lemma updateStack_fixpoint:
  "(case updateStack e p of
      Inr p' \<Rightarrow> updateStack e p' = Inr p'
    | Inl (err, p') \<Rightarrow> updateStack e p' = Inl (err, p'))"
proof (cases "prov_key p = [] \<or> getGlobalContainerStack e = None")
  case True
  then show ?thesis
    by (simp add: updateStack_idle)
next
  case False
  then obtain g where k: "prov_key p \<noteq> []" and g: "getGlobalContainerStack e = Some g"
    by auto
  let ?p1 = "p\<lparr>global_container_stack := Some g\<rparr>"
  show ?thesis
  proof (cases "py_le_1 (getProperty_value g ''machine_extruder_count'')")
    case (Inl err)
    then show ?thesis
      using k g by (simp add: updateStack_count_raises)
  next
    case (Inr b)
    show ?thesis
    proof (cases b)
      case True
      with Inr k g show ?thesis
        by (simp add: updateStack_single set_global_same setContainerStackId_noop)
    next
      case nb: False
      show ?thesis
      proof (cases "getProperty_settable_per_extruder g (prov_key p)")
        case False
        with Inr nb k g show ?thesis
          by (simp add: updateStack_not_settable set_global_same setContainerStackId_noop)
      next
        case s: True
        show ?thesis
        proof (cases "limit_index (getProperty_limit_to_extruder g (prov_key p))")
          case (Some i)
          with Inr nb k g s show ?thesis
            by (cases "getExtruderStack e i")
              (simp_all add: updateStack_limited set_global_same setContainerStackId_noop)
        next
          case None
          with Inr nb k g s show ?thesis
            by (cases "determineInherit (setContainerStackId e (activeExtruderStackId e) ?p1)")
              (simp_all add: updateStack_active set_global_same setContainerStackId_noop)
        qed
      qed
    qed
  qed
qed

lemma branch_6:
  assumes "resolution_branch e p = 6"
  obtains g where "prov_key p \<noteq> []" and "getGlobalContainerStack e = Some g"
    and "py_le_1 (getProperty_value g ''machine_extruder_count'') = Inr False"
    and "getProperty_settable_per_extruder g (prov_key p)"
    and "limit_index (getProperty_limit_to_extruder g (prov_key p)) = None"
  using assms
  by (auto simp: resolution_branch_def split: if_splits option.splits sum.splits bool.splits)

lemma updateStack_recomputes:
  assumes "resolution_branch e p = 6"
  shows "(case updateStack e p of
            Inr p' \<Rightarrow> containerStackId p' = activeExtruderStackId e
                      \<and> determineInherit p' = Inr (shouldShowInherit p')
          | Inl (err, p') \<Rightarrow> determineInherit p' = Inl err)"
proof -
  from assms obtain g where c: "prov_key p \<noteq> []" "getGlobalContainerStack e = Some g"
    "py_le_1 (getProperty_value g ''machine_extruder_count'') = Inr False"
    "getProperty_settable_per_extruder g (prov_key p)"
    "limit_index (getProperty_limit_to_extruder g (prov_key p)) = None"
    by (rule branch_6)
  show ?thesis
    by (cases "determineInherit (setContainerStackId e (activeExtruderStackId e)
                 (p\<lparr>global_container_stack := Some g\<rparr>))")
      (simp_all add: updateStack_active [OF c] shouldShowInherit_def)
qed

lemma updateStack_carries_over:
  assumes "resolution_branch e p \<noteq> 6"
  shows "(case updateStack e p of
            Inr p' \<Rightarrow> shouldShowInherit p' = shouldShowInherit p
          | Inl (err, p') \<Rightarrow> shouldShowInherit p' = shouldShowInherit p)"
proof (cases "prov_key p = [] \<or> getGlobalContainerStack e = None")
  case True
  then show ?thesis
    by (simp add: updateStack_idle)
next
  case False
  then obtain g where k: "prov_key p \<noteq> []" and g: "getGlobalContainerStack e = Some g"
    by auto
  show ?thesis
  proof (cases "py_le_1 (getProperty_value g ''machine_extruder_count'')")
    case (Inl err)
    then show ?thesis
      using k g by (simp add: updateStack_count_raises shouldShowInherit_def)
  next
    case (Inr b)
    show ?thesis
    proof (cases b)
      case True
      with Inr k g show ?thesis
        by (simp add: updateStack_single shouldShowInherit_def)
    next
      case nb: False
      show ?thesis
      proof (cases "getProperty_settable_per_extruder g (prov_key p)")
        case False
        with Inr nb k g show ?thesis
          by (simp add: updateStack_not_settable shouldShowInherit_def)
      next
        case s: True
        from assms Inr nb k g s
        obtain i where "limit_index (getProperty_limit_to_extruder g (prov_key p)) = Some i"
          by (cases "limit_index (getProperty_limit_to_extruder g (prov_key p))")
            (auto simp: resolution_branch_def)
        with Inr nb k g s show ?thesis
          by (cases "getExtruderStack e i")
            (simp_all add: updateStack_limited shouldShowInherit_def)
      qed
    qed
  qed
qed

text \<open>
  C6, as the code has it. \<^verbatim>\<open>_updateStack\<close> recomputes \<^verbatim>\<open>shouldShowInherit\<close> exactly in branch 6:
  there the flag it leaves is what \<^verbatim>\<open>_determineInherit\<close> gives on the new target (or the
  exception of \<^verbatim>\<open>_determineInherit\<close> leaves the call); in every other branch, branch 3
  included, the flag is the one the provider had before. Running \<^verbatim>\<open>_updateStack\<close> again in
  the same environment on the state it left changes nothing: the same outcome, the same
  target, the same \<^verbatim>\<open>shouldShowRevert\<close> and \<^verbatim>\<open>shouldShowInherit\<close>.
\<close>

theorem inherit_recomputed_in_branch_6_only:
  "(resolution_branch e p = 6 \<longrightarrow>
      (case updateStack e p of
         Inr p' \<Rightarrow> containerStackId p' = activeExtruderStackId e
                   \<and> determineInherit p' = Inr (shouldShowInherit p')
       | Inl (err, p') \<Rightarrow> determineInherit p' = Inl err))
   \<and> (resolution_branch e p \<noteq> 6 \<longrightarrow>
      (case updateStack e p of
         Inr p' \<Rightarrow> shouldShowInherit p' = shouldShowInherit p
       | Inl (err, p') \<Rightarrow> shouldShowInherit p' = shouldShowInherit p))
   \<and> (case updateStack e p of
         Inr p' \<Rightarrow> updateStack e p' = Inr p'
       | Inl (err, p') \<Rightarrow> updateStack e p' = Inl (err, p'))"
  using updateStack_recomputes [of e p] updateStack_carries_over [of e p]
    updateStack_fixpoint [of e p]
  by blast

text \<open>
  The theorem on a machine with two extruders (branch 6: the flag is recomputed on the stack
  of the active extruder) and on a machine with one (branch 3: the flag is carried over).
\<close>

theorem inherit_recomputed_in_branch_6_only_witness:
  "resolution_branch (world (machine 2 (user_props (PInt 20) None))) fresh_provider = 6
   \<and> activeExtruderStackId (world (machine 2 (user_props (PInt 20) None))) = Some ''extruder_1''
   \<and> (case updateStack (world (machine 2 (user_props (PInt 20) None))) fresh_provider of
         Inr p' \<Rightarrow> containerStackId p'
                     = activeExtruderStackId (world (machine 2 (user_props (PInt 20) None)))
                   \<and> determineInherit p' = Inr (shouldShowInherit p')
       | Inl (err, p') \<Rightarrow> determineInherit p' = Inl err)
   \<and> resolution_branch (world (machine 1 (user_props (PInt 20) None))) fresh_provider \<noteq> 6
   \<and> (case updateStack (world (machine 1 (user_props (PInt 20) None))) fresh_provider of
         Inr p' \<Rightarrow> shouldShowInherit p' = shouldShowInherit fresh_provider
       | Inl (err, p') \<Rightarrow> shouldShowInherit p' = shouldShowInherit fresh_provider)
   \<and> (case updateStack (world (machine 2 (user_props (PInt 20) None))) fresh_provider of
         Inr p' \<Rightarrow> updateStack (world (machine 2 (user_props (PInt 20) None))) p' = Inr p'
       | Inl (err, p') \<Rightarrow>
           updateStack (world (machine 2 (user_props (PInt 20) None))) p' = Inl (err, p'))"
proof -
  let ?w2 = "world (machine 2 (user_props (PInt 20) None))"
  let ?w1 = "world (machine 1 (user_props (PInt 20) None))"
  have b6: "resolution_branch ?w2 fresh_provider = 6"
    by (simp add: resolution_branch_def example_defs property_defs py_le_1_def limit_index_def)
  have b3: "resolution_branch ?w1 fresh_provider \<noteq> 6"
    by (simp add: resolution_branch_def example_defs property_defs py_le_1_def)
  have a: "activeExtruderStackId ?w2 = Some ''extruder_1''"
    by (simp add: activeExtruderStackId_def getExtruderStack_def example_defs)
  from inherit_recomputed_in_branch_6_only [of ?w2 fresh_provider]
    inherit_recomputed_in_branch_6_only [of ?w1 fresh_provider] b6 b3 a
  show ?thesis
    by simp
qed

text \<open>
  C6, as the specification words it, fails: on the machine with one extruder
  \<^verbatim>\<open>_updateStack\<close> takes branch 3 and leaves \<^verbatim>\<open>shouldShowInherit\<close> false, as it was, although
  \<^verbatim>\<open>_determineInherit\<close> on the state it leaves returns true.
\<close>

theorem inherit_not_recomputed_in_branch_3:
  "resolution_branch (world (machine 1 (user_props (PInt 20) None))) fresh_provider = 3
   \<and> updateStack (world (machine 1 (user_props (PInt 20) None))) fresh_provider
       = Inr (fresh_provider
               \<lparr>global_container_stack := Some (machine 1 (user_props (PInt 20) None)),
                containerStackId := Some ''global'',
                prov_stack := Some (machine 1 (user_props (PInt 20) None)),
                stackLevels := [0, 1]\<rparr>)
   \<and> determineInherit (fresh_provider
               \<lparr>global_container_stack := Some (machine 1 (user_props (PInt 20) None)),
                containerStackId := Some ''global'',
                prov_stack := Some (machine 1 (user_props (PInt 20) None)),
                stackLevels := [0, 1]\<rparr>) = Inr True
   \<and> shouldShowInherit (fresh_provider
               \<lparr>global_container_stack := Some (machine 1 (user_props (PInt 20) None)),
                containerStackId := Some ''global'',
                prov_stack := Some (machine 1 (user_props (PInt 20) None)),
                stackLevels := [0, 1]\<rparr>) = False"
  by (simp add: resolution_branch_def updateStack_def setContainerStackId_def
      base_stackLevels_def determineInherit_def shouldShowInherit_def py_le_1_def
      example_defs property_defs Let_def)

section \<open>Properties of StartSliceJob\<close>

lemmas scene_defs = scene_def empty_scene_def group_node_def cube_def plain_node_def
  printer_def printer_with_def value_props_def no_order_def

subsection \<open>The messages of a run\<close>

lemma add_objects_all2:
  "add_objects g = Inr objs \<Longrightarrow> list_all2 (\<lambda>pn obj. add_object (snd pn) = Inr obj) g objs"
  by (induction g arbitrary: objs) (auto split: sum.splits)

lemma add_object_lists_all2:
  "add_object_lists groups = Inr ls \<Longrightarrow> list_all2 (\<lambda>g l. add_object_list g = Inr l) groups ls"
  by (induction groups arbitrary: ls) (auto split: sum.splits)

lemma run_succeeds:
  assumes "run finish app_stack job_stack oaat scene_root = Inr js"
    and "job_result js = Some True"
  shows "\<exists>scene1 groups log0 settings log1 object_lists.
           object_groups app_stack oaat scene_root = Inr (scene1, groups, log0)
         \<and> sendGlobalSettings finish job_stack = Inr (settings, log1)
         \<and> add_object_lists groups = Inr object_lists
         \<and> job_sent js = [SettingList settings, Slice object_lists]"
  using assms
  by (auto simp: run_def split: sum.splits if_splits prod.splits)

lemma encode_Inr:
  "encode s = Inr bytes \<Longrightarrow> bytes = s"
  by (simp add: encode_def split: if_splits)

lemma add_settings_Inr:
  "add_settings items settings = Inr r
   \<Longrightarrow> r = settings @ map (\<lambda>(k, v). (k, py_str v)) items"
  by (induction items settings rule: add_settings.induct)
    (auto split: sum.splits dest: encode_Inr)

lemma handlePerObjectSettings_flattened:
  "handlePerObjectSettings n [] = Inr r
   \<Longrightarrow> r = flattened (getProfile (data n)) @ flattened (node_getAllSettingValues (data n))"
  by (auto simp: handlePerObjectSettings_def flattened_def
      split: option.splits sum.splits if_splits dest!: add_settings_Inr)

lemma add_object_Inr:
  assumes "add_object n = Inr obj"
  shows "\<exists>vertices. getMeshData (data n) = Some (Some vertices)
           \<and> obj_id obj = node_id (data n)
           \<and> obj_vertices obj =
               map (\<lambda>v. case getWorldTransformation (data n) v of (x, y, z) \<Rightarrow> (x, - z, y)) vertices
           \<and> obj_settings obj =
               flattened (getProfile (data n)) @ flattened (node_getAllSettingValues (data n))"
  using assms
  by (auto simp: add_object_def Let_def swap_columns_def negate_column_1_def
      split: option.splits prod.splits sum.splits dest!: handlePerObjectSettings_flattened)

lemma run_scene:
  "run no_finisher (Some printer) (Some printer) no_order scene = Inr sliced_scene"
proof -
  have groups: "object_groups (Some printer) no_order scene
      = Inr (scene, [[(Some group_node, cube)]], [])"
    by (simp add: object_groups_def remove_old_layer_data_def DepthFirstIterator_def
        has_vertices_def scene_defs getProperty_value_def)
  have settings: "getAllSettingValues printer =
     [(''machine_settings'', PNone),
      (''machine_start_gcode'', PStr ''M140 S{material_bed_temperature}''),
      (''machine_end_gcode'', PStr ''M104 S0''),
      (''material_bed_temperature'', PInt 60)]"
    by (simp add: getAllSettingValues_def update_all_def scene_defs getProperty_value_def)
  have send: "sendGlobalSettings no_finisher (Some printer) =
     Inr ([(''machine_settings'', ''None''),
           (''machine_start_gcode'', ''M140 S60''),
           (''machine_end_gcode'', ''M104 S0''),
           (''material_bed_temperature'', ''60''),
           (''material_bed_temp_prepend'', ''False''),
           (''material_print_temp_prepend'', ''True'')], [])"
    by (simp add: sendGlobalSettings_def settings py_not_in_def is_gcode_key_def
        expandGcodeTokens_def formatter_format_def vformat.simps next_item_def
        is_brace_def parse_field_def field_text_def number_field_def isdigit_def is_digit_def
        first_key_def is_accessor_def number_by_database_def is_ascii_def get_value_def
        py_str_def str_of_nat.simps encode_def)
  have lists: "add_object_lists [[(Some group_node, cube)]] =
     Inr [\<lparr>objects =
             [\<lparr>obj_id = 2, obj_vertices = [(1, - 3, 2)],
               obj_settings = [(''speed'', ''40''), (''speed'', ''50'')]\<rparr>],
           list_settings = [(''layer_height'', ''0.2'')]\<rparr>]"
    by (simp add: add_object_list_def add_object_def handlePerObjectSettings_def
        swap_columns_def negate_column_1_def scene_defs py_str_def str_of_nat.simps encode_def)
  show ?thesis
    by (simp add: run_def groups send lists sliced_scene_def del: add_object_lists.simps)
qed

lemma add_object_list_Inr:
  assumes "add_object_list g = Inr l"
  shows "\<exists>first others parent. g = first # others \<and> fst first = Some parent
           \<and> add_objects g = Inr (objects l)
           \<and> list_settings l =
               (if isGroup (data parent)
                then flattened (getProfile (data parent))
                       @ flattened (node_getAllSettingValues (data parent))
                else [])"
  using assms
  by (auto simp: add_object_list_def
      split: list.splits option.splits sum.splits if_splits
      dest!: handlePerObjectSettings_flattened)

subsection \<open>Vertices\<close>

text \<open>
  C1, as the code has it. When a run sends its slice message, the message has one object
  list per group and one object per node of the group, in the same order, and the object of a
  node holds the node's vertices in the order of the mesh, a vertex \<open>(x, y, z)\<close> of the
  transformed mesh written as \<open>(x, -z, y)\<close>.
\<close>

theorem vertices_written_as_x_minus_z_y:
  assumes "run finish app_stack job_stack oaat scene_root = Inr js"
    and "job_result js = Some True"
  shows "\<exists>scene1 groups log0 settings object_lists.
           object_groups app_stack oaat scene_root = Inr (scene1, groups, log0)
         \<and> job_sent js = [SettingList settings, Slice object_lists]
         \<and> list_all2
              (\<lambda>g l. list_all2
                 (\<lambda>pn obj. \<exists>vertices.
                     getMeshData (data (snd pn)) = Some (Some vertices)
                   \<and> obj_id obj = node_id (data (snd pn))
                   \<and> obj_vertices obj =
                       map (\<lambda>v. case getWorldTransformation (data (snd pn)) v of
                                   (x, y, z) \<Rightarrow> (x, - z, y)) vertices)
                 g (objects l))
              groups object_lists"
proof -
  from run_succeeds [OF assms] obtain scene1 groups log0 settings log1 object_lists
    where g: "object_groups app_stack oaat scene_root = Inr (scene1, groups, log0)"
      and l: "add_object_lists groups = Inr object_lists"
      and s: "job_sent js = [SettingList settings, Slice object_lists]"
    by blast
  have "list_all2
          (\<lambda>pn obj. \<exists>vertices.
              getMeshData (data (snd pn)) = Some (Some vertices)
            \<and> obj_id obj = node_id (data (snd pn))
            \<and> obj_vertices obj =
                map (\<lambda>v. case getWorldTransformation (data (snd pn)) v of
                            (x, y, z) \<Rightarrow> (x, - z, y)) vertices)
          g (objects l)"
    if "add_object_list g = Inr l" for g l
  proof -
    from add_object_list_Inr [OF that] have "add_objects g = Inr (objects l)"
      by blast
    from add_objects_all2 [OF this] show ?thesis
      by (rule list_all2_mono) (use add_object_Inr in blast)
  qed
  with add_object_lists_all2 [OF l] have "list_all2
              (\<lambda>g l. list_all2
                 (\<lambda>pn obj. \<exists>vertices.
                     getMeshData (data (snd pn)) = Some (Some vertices)
                   \<and> obj_id obj = node_id (data (snd pn))
                   \<and> obj_vertices obj =
                       map (\<lambda>v. case getWorldTransformation (data (snd pn)) v of
                                   (x, y, z) \<Rightarrow> (x, - z, y)) vertices)
                 g (objects l))
              groups object_lists"
    by (rule list_all2_mono)
  with g s show ?thesis
    by blast
qed

theorem vertices_written_as_x_minus_z_y_witness:
  "run no_finisher (Some printer) (Some printer) no_order scene = Inr sliced_scene
   \<and> job_result sliced_scene = Some True
   \<and> (\<exists>scene1 groups log0 settings object_lists.
           object_groups (Some printer) no_order scene = Inr (scene1, groups, log0)
         \<and> job_sent sliced_scene = [SettingList settings, Slice object_lists]
         \<and> list_all2
              (\<lambda>g l. list_all2
                 (\<lambda>pn obj. \<exists>vertices.
                     getMeshData (data (snd pn)) = Some (Some vertices)
                   \<and> obj_id obj = node_id (data (snd pn))
                   \<and> obj_vertices obj =
                       map (\<lambda>v. case getWorldTransformation (data (snd pn)) v of
                                   (x, y, z) \<Rightarrow> (x, - z, y)) vertices)
                 g (objects l))
              groups object_lists)"
proof -
  have r: "job_result sliced_scene = Some True"
    by (simp add: sliced_scene_def)
  from vertices_written_as_x_minus_z_y [OF run_scene r] run_scene r show ?thesis
    by blast
qed

text \<open>
  C1, as the specification words it, fails: the cube's vertex \<open>(1, 2, 3)\<close>, untransformed, is
  written to the slice message as \<open>(1, -3, 2)\<close>, not as \<open>(1, 3, -2)\<close>.
\<close>

theorem vertex_not_written_as_x_z_minus_y:
  "run no_finisher (Some printer) (Some printer) no_order scene = Inr sliced_scene
   \<and> getMeshData (data cube) = Some (Some [(1, 2, 3)])
   \<and> getWorldTransformation (data cube) (1, 2, 3) = (1, 2, 3)
   \<and> job_sent sliced_scene ! 1
       = Slice [\<lparr>objects =
                    [\<lparr>obj_id = node_id (data cube), obj_vertices = [(1, - 3, 2)],
                      obj_settings = [(''speed'', ''40''), (''speed'', ''50'')]\<rparr>],
                  list_settings = [(''layer_height'', ''0.2'')]\<rparr>]
   \<and> ((1, - 3, 2) :: vertex) \<noteq> (1, 3, - 2)"
  by (simp add: run_scene sliced_scene_def cube_def plain_node_def)

subsection \<open>Per-object settings\<close>

text \<open>
  C4, as the specification words it, fails on the example scene. The cube has the profile value
  \<^verbatim>\<open>speed = 40\<close> and the per-object setting \<^verbatim>\<open>speed = 50\<close>: both pairs are in the settings of its
  object, the later one does not replace the earlier one. And the pair of the profile of the
  group node is in the settings of the message of the group, not in the settings of the object.
\<close>

theorem duplicate_pairs_kept_group_profile_apart:
  "run no_finisher (Some printer) (Some printer) no_order scene = Inr sliced_scene
   \<and> getProfile (data cube) = Some [(''speed'', PInt 40)]
   \<and> node_getAllSettingValues (data cube) = Some [(''speed'', PInt 50)]
   \<and> isGroup (data group_node)
   \<and> getProfile (data group_node) = Some [(''layer_height'', PStr ''0.2'')]
   \<and> job_sent sliced_scene ! 1
       = Slice [\<lparr>objects =
                    [\<lparr>obj_id = node_id (data cube), obj_vertices = [(1, - 3, 2)],
                      obj_settings = [(''speed'', ''40''), (''speed'', ''50'')]\<rparr>],
                  list_settings = [(''layer_height'', ''0.2'')]\<rparr>]
   \<and> [(''speed'', ''40''), (''speed'', ''50'')] \<noteq> [(''speed'', ''50'')]
   \<and> (''layer_height'', ''0.2'') \<notin> set [(''speed'', ''40''), (''speed'', ''50'')]"
  by (simp add: run_scene sliced_scene_def cube_def group_node_def plain_node_def)

text \<open>
  C4, amended. When a run sends its slice message, the settings of the object of a node are
  the values of the node's profile followed by its per-object settings, as name/value pairs in
  the order of the two dictionaries, a name that is in both being there twice. The settings
  of the message of a group are, when the parent of the group's first node is a group node,
  that node's profile values followed by its per-object settings, and are empty otherwise;
  they are held by the message of the group, apart from the settings of its objects.
\<close>

theorem settings_profile_then_overrides:
  assumes "run finish app_stack job_stack oaat scene_root = Inr js"
    and "job_result js = Some True"
  shows "\<exists>scene1 groups log0 settings object_lists.
           object_groups app_stack oaat scene_root = Inr (scene1, groups, log0)
         \<and> job_sent js = [SettingList settings, Slice object_lists]
         \<and> list_all2
              (\<lambda>g l.
                 (\<exists>first others parent. g = first # others \<and> fst first = Some parent
                    \<and> list_settings l =
                        (if isGroup (data parent)
                         then flattened (getProfile (data parent))
                                @ flattened (node_getAllSettingValues (data parent))
                         else []))
               \<and> list_all2
                   (\<lambda>pn obj.
                      obj_settings obj =
                        flattened (getProfile (data (snd pn)))
                          @ flattened (node_getAllSettingValues (data (snd pn))))
                   g (objects l))
              groups object_lists"
proof -
  from run_succeeds [OF assms] obtain scene1 groups log0 settings log1 object_lists
    where g: "object_groups app_stack oaat scene_root = Inr (scene1, groups, log0)"
      and l: "add_object_lists groups = Inr object_lists"
      and s: "job_sent js = [SettingList settings, Slice object_lists]"
    by blast
  have obj: "obj_settings obj =
               flattened (getProfile (data n)) @ flattened (node_getAllSettingValues (data n))"
    if "add_object n = Inr obj" for n obj
    using add_object_Inr [OF that] by blast
  have "(\<exists>first others parent. g = first # others \<and> fst first = Some parent
            \<and> list_settings l =
                (if isGroup (data parent)
                 then flattened (getProfile (data parent))
                        @ flattened (node_getAllSettingValues (data parent))
                 else []))
        \<and> list_all2
            (\<lambda>pn obj.
               obj_settings obj =
                 flattened (getProfile (data (snd pn)))
                   @ flattened (node_getAllSettingValues (data (snd pn))))
            g (objects l)"
    if a: "add_object_list g = Inr l" for g l
  proof -
    from add_object_list_Inr [OF a] have o: "add_objects g = Inr (objects l)"
      by blast
    have "list_all2
            (\<lambda>pn obj.
               obj_settings obj =
                 flattened (getProfile (data (snd pn)))
                   @ flattened (node_getAllSettingValues (data (snd pn))))
            g (objects l)"
      using add_objects_all2 [OF o] by (rule list_all2_mono) (rule obj)
    with add_object_list_Inr [OF a] show ?thesis
      by blast
  qed
  with add_object_lists_all2 [OF l] have "list_all2
              (\<lambda>g l.
                 (\<exists>first others parent. g = first # others \<and> fst first = Some parent
                    \<and> list_settings l =
                        (if isGroup (data parent)
                         then flattened (getProfile (data parent))
                                @ flattened (node_getAllSettingValues (data parent))
                         else []))
               \<and> list_all2
                   (\<lambda>pn obj.
                      obj_settings obj =
                        flattened (getProfile (data (snd pn)))
                          @ flattened (node_getAllSettingValues (data (snd pn))))
                   g (objects l))
              groups object_lists"
    by (rule list_all2_mono)
  with g s show ?thesis
    by blast
qed

theorem settings_profile_then_overrides_witness:
  "run no_finisher (Some printer) (Some printer) no_order scene = Inr sliced_scene
   \<and> job_result sliced_scene = Some True
   \<and> flattened (getProfile (data cube)) @ flattened (node_getAllSettingValues (data cube))
       = [(''speed'', ''40''), (''speed'', ''50'')]
   \<and> flattened (getProfile (data group_node))
         @ flattened (node_getAllSettingValues (data group_node))
       = [(''layer_height'', ''0.2'')]
   \<and> (\<exists>scene1 groups log0 settings object_lists.
           object_groups (Some printer) no_order scene = Inr (scene1, groups, log0)
         \<and> job_sent sliced_scene = [SettingList settings, Slice object_lists]
         \<and> list_all2
              (\<lambda>g l.
                 (\<exists>first others parent. g = first # others \<and> fst first = Some parent
                    \<and> list_settings l =
                        (if isGroup (data parent)
                         then flattened (getProfile (data parent))
                                @ flattened (node_getAllSettingValues (data parent))
                         else []))
               \<and> list_all2
                   (\<lambda>pn obj.
                      obj_settings obj =
                        flattened (getProfile (data (snd pn)))
                          @ flattened (node_getAllSettingValues (data (snd pn))))
                   g (objects l))
              groups object_lists)"
proof -
  have r: "job_result sliced_scene = Some True"
    by (simp add: sliced_scene_def)
  have c: "flattened (getProfile (data cube)) @ flattened (node_getAllSettingValues (data cube))
       = [(''speed'', ''40''), (''speed'', ''50'')]"
    by (simp add: flattened_def cube_def plain_node_def py_str_def str_of_nat.simps)
  have p: "flattened (getProfile (data group_node))
         @ flattened (node_getAllSettingValues (data group_node))
       = [(''layer_height'', ''0.2'')]"
    by (simp add: flattened_def group_node_def plain_node_def py_str_def)
  from settings_profile_then_overrides [OF run_scene r] run_scene r c p show ?thesis
    by blast
qed

subsection \<open>A scene without objects\<close>

text \<open>
  C9. When the first part of \<^verbatim>\<open>run\<close> produces no group, \<^verbatim>\<open>run\<close> returns without an exception,
  no message has been sent, neither the \<^verbatim>\<open>SettingList\<close> nor the \<^verbatim>\<open>Slice\<close> message, and no result
  has been set; the log holds what the first part logged.
\<close>

theorem no_groups_no_message:
  assumes "object_groups app_stack oaat scene_root = Inr (scene1, [], log0)"
  shows "run finish app_stack job_stack oaat scene_root =
           Inr \<lparr>job_scene = scene1, job_sent = [], job_log = log0, job_result = None\<rparr>"
  using assms by (simp add: run_def)

theorem no_groups_no_message_witness:
  "object_groups (Some printer) no_order empty_scene = Inr (empty_scene, [], [])
   \<and> run no_finisher (Some printer) (Some printer) no_order empty_scene =
           Inr \<lparr>job_scene = empty_scene, job_sent = [], job_log = [], job_result = None\<rparr>"
proof -
  have g: "object_groups (Some printer) no_order empty_scene = Inr (empty_scene, [], [])"
    by (simp add: object_groups_def remove_old_layer_data_def DepthFirstIterator_def
        has_vertices_def scene_defs getProperty_value_def)
  from no_groups_no_message [OF g] g show ?thesis
    by simp
qed

subsection \<open>The collected settings\<close>

lemma keys_update_all:
  "fst ` set (update_all items setting_values) = fst ` set items \<union> fst ` set setting_values"
  by (induction items arbitrary: setting_values)
    (auto simp: update_all_def dom_update split: prod.splits)

lemma keys_fold_definitions:
  "fst ` set (fold (\<lambda>d setting_values.
                     update_all (G d) (AList.update (def_key d) (V d) setting_values)) ds sv)
     = fst ` set sv \<union> (\<Union>d \<in> set ds. insert (def_key d) (fst ` set (G d)))"
  by (induction ds arbitrary: sv) (auto simp: keys_update_all dom_update)

lemma keys_getAllChildSettingValues:
  "insert (def_key d) (fst ` set (getAllChildSettingValues st d)) = definition_keys d"
proof (induction d)
  case (Definition k cs)
  have "fst ` set (getAllChildSettingValues st (Definition k cs))
      = (\<Union>d \<in> set cs. insert (def_key d) (fst ` set (getAllChildSettingValues st d)))"
    by (simp add: keys_fold_definitions)
  also have "\<dots> = (\<Union>d \<in> set cs. definition_keys d)"
    using Definition.IH by simp
  finally show ?case
    by simp
qed

lemma keys_getAllSettingValues:
  "fst ` set (getAllSettingValues st) = stack_definition_keys st"
  by (simp add: getAllSettingValues_def stack_definition_keys_def keys_fold_definitions
      keys_getAllChildSettingValues)

text \<open>
  C10. When no definition of the definition containers of the job's stack, at any depth,
  has the key \<^verbatim>\<open>machine_start_gcode\<close>, \<^verbatim>\<open>_sendGlobalSettings\<close> raises \<^verbatim>\<open>KeyError\<close>: no message is
  built or sent and nothing is logged; and a run that has produced a group ends with that
  exception. So \<^verbatim>\<open>_sendGlobalSettings\<close> returns only if the key is among the collected ones.
\<close>

theorem missing_start_gcode_raises_KeyError:
  assumes "''machine_start_gcode'' \<notin> stack_definition_keys st"
  shows "sendGlobalSettings finish (Some st) = Inl KeyError
       \<and> (\<forall>app_stack oaat scene_root scene1 groups log0.
             object_groups app_stack oaat scene_root = Inr (scene1, groups, log0) \<and> groups \<noteq> []
             \<longrightarrow> run finish app_stack (Some st) oaat scene_root = Inl KeyError)"
proof -
  from assms have "''machine_start_gcode'' \<notin> fst ` set (getAllSettingValues st)"
    by (simp add: keys_getAllSettingValues)
  then have "map_of (getAllSettingValues st) ''machine_start_gcode'' = None"
    by (simp add: map_of_eq_None_iff)
  then have s: "sendGlobalSettings finish (Some st) = Inl KeyError"
    by (simp add: sendGlobalSettings_def)
  then show ?thesis
    by (auto simp: run_def)
qed

theorem missing_start_gcode_raises_KeyError_witness:
  "''machine_start_gcode'' \<notin> stack_definition_keys (printer_with [Definition ''material_bed_temperature'' []])
   \<and> sendGlobalSettings no_finisher (Some (printer_with [Definition ''material_bed_temperature'' []]))
       = Inl KeyError
   \<and> object_groups (Some printer) no_order scene = Inr (scene, [[(Some group_node, cube)]], [])
   \<and> run no_finisher (Some printer) (Some (printer_with [Definition ''material_bed_temperature'' []]))
         no_order scene = Inl KeyError
   \<and> ''machine_start_gcode'' \<in> stack_definition_keys printer
   \<and> run no_finisher (Some printer) (Some printer) no_order scene = Inr sliced_scene"
proof -
  let ?st = "printer_with [Definition ''material_bed_temperature'' []]"
  have k: "''machine_start_gcode'' \<notin> stack_definition_keys ?st"
    by (simp add: stack_definition_keys_def printer_with_def)
  have p: "''machine_start_gcode'' \<in> stack_definition_keys printer"
    by (simp add: stack_definition_keys_def printer_with_def printer_def)
  have g: "object_groups (Some printer) no_order scene = Inr (scene, [[(Some group_node, cube)]], [])"
    by (simp add: object_groups_def remove_old_layer_data_def DepthFirstIterator_def
        has_vertices_def scene_defs getProperty_value_def)
  from missing_start_gcode_raises_KeyError [OF k, of no_finisher] g k p run_scene show ?thesis
    by auto
qed

subsection \<open>Token expansion\<close>

lemma scan_name_setting_key:
  "list_all (\<lambda>c. c \<notin> set ''{}!:.['') key
   \<Longrightarrow> scan_name False (key @ CHR ''}'' # rest) = Inr (key, CHR ''}'', rest)"
  by (induction key) auto

lemma parse_field_setting_key:
  "setting_key key \<Longrightarrow> parse_field (key @ CHR ''}'' # rest) = Inr ((key, [], None), rest)"
  by (simp add: parse_field_def setting_key_def scan_name_setting_key)

lemma next_item_token:
  assumes "plain_text t" and "setting_key key"
  shows "next_item (t @ CHR ''{'' # key @ CHR ''}'' # rest)
       = Inr (Some (t, Some (key, [], None), rest))"
proof -
  let ?P = "\<lambda>c. \<not> is_brace c"
  from assms(1) have t: "\<And>c. c \<in> set t \<Longrightarrow> ?P c"
    by (simp add: plain_text_def list_all_iff)
  have d: "dropWhile ?P (t @ CHR ''{'' # key @ CHR ''}'' # rest) = CHR ''{'' # key @ CHR ''}'' # rest"
    using t by (simp add: dropWhile_append2 is_brace_def)
  have k: "takeWhile ?P (t @ CHR ''{'' # key @ CHR ''}'' # rest) = t"
    using t by (simp add: takeWhile_append2 is_brace_def)
  from assms(2) obtain c cs where key: "key = c # cs" and c: "c \<noteq> CHR ''{''"
    by (cases key) (auto simp: setting_key_def)
  have p: "parse_field (key @ CHR ''}'' # rest) = Inr ((key, [], None), rest)"
    using assms(2) by (rule parse_field_setting_key)
  show ?thesis
    unfolding next_item_def d k using p c by (simp add: key)
qed

lemma field_text_setting_key:
  assumes "setting_key key"
  shows "field_text finish settings (key, [], None) a
       = (case map_of settings key of
            Some v \<Rightarrow> (Inr (py_str v, a), [])
          | None \<Rightarrow>
              (Inr (''{'' @ key @ ''}'', a),
               [LogEntry ''w'' ''Unable to replace '%s' placeholder in start/end gcode'' [key]]))"
proof -
  from assms obtain c where c: "c \<in> set key" "is_ascii c" "\<not> is_digit c"
    by (auto simp: setting_key_def list_ex_iff)
  then have nd: "\<not> isdigit key" and ne: "key \<noteq> []"
    by (auto simp: isdigit_def list_all_iff)
  then have n: "number_field key a = Inr (key, a)"
    by (simp add: number_field_def)
  from assms have acc: "\<not> list_ex is_accessor key"
    by (auto simp: setting_key_def list_all_iff list_ex_iff is_accessor_def)
  from c have db: "\<not> number_by_database key"
    by (auto simp: number_by_database_def list_all_iff)
  from nd have f: "first_key key = Inr (StrKey key)"
    by (simp add: first_key_def)
  show ?thesis
    by (simp add: field_text_def n acc db f get_value_def py_str_def split: option.splits)
qed

lemma vformat_plain_text:
  assumes "plain_text tail"
  shows "vformat finish settings tail a = (Inr tail, [])"
proof (cases "tail = []")
  case True
  then show ?thesis
    by (simp add: vformat.simps next_item_def)
next
  case False
  from assms have d: "dropWhile (\<lambda>c. \<not> is_brace c) tail = []"
    by (simp add: plain_text_def list_all_iff)
  have "next_item tail = Inr (Some (tail, None, []))"
    unfolding next_item_def d using False by simp
  then show ?thesis
    by (simp add: vformat.simps [of _ _ tail] vformat.simps [of _ _ "[]"] next_item_def)
qed

lemma vformat_open_brace:
  assumes "plain_text tail"
  shows "vformat finish settings (tail @ ''{'') a = (Inl ValueError, [])"
proof -
  from assms have "\<And>c. c \<in> set tail \<Longrightarrow> \<not> is_brace c"
    by (simp add: plain_text_def list_all_iff)
  then have d: "dropWhile (\<lambda>c. \<not> is_brace c) (tail @ ''{'') = ''{''"
    by (simp add: dropWhile_append2 is_brace_def)
  have "next_item (tail @ ''{'') = Inl ValueError"
    unfolding next_item_def d by simp
  then show ?thesis
    by (simp add: vformat.simps [of _ _ "tail @ ''{''"])
qed

lemma template_Cons:
  "template ((t, key) # tokens) rest = t @ CHR ''{'' # key @ CHR ''}'' # template tokens rest"
  by (simp add: template_def)

lemma vformat_tokens:
  assumes "list_all (\<lambda>(t, key). plain_text t \<and> setting_key key) tokens"
  shows "vformat finish settings (template tokens rest) a
       = (case vformat finish settings rest a of
            (Inl e, log2) \<Rightarrow> (Inl e, warnings settings tokens @ log2)
          | (Inr text, log2) \<Rightarrow>
              (Inr (expansion settings tokens text), warnings settings tokens @ log2))"
  using assms
proof (induction tokens)
  case Nil
  then show ?case
    by (simp add: template_def expansion_def warnings_def split: prod.splits sum.splits)
next
  case (Cons token tokens)
  obtain t key where token: "token = (t, key)"
    by (cases token)
  from Cons.prems have t: "plain_text t" and key: "setting_key key"
    and rest: "list_all (\<lambda>(t, key). plain_text t \<and> setting_key key) tokens"
    by (simp_all add: token)
  have n: "next_item (template (token # tokens) rest)
         = Inr (Some (t, Some (key, [], None), template tokens rest))"
    unfolding token template_Cons using t key by (rule next_item_token)
  have e: "expansion settings (token # tokens) x
         = t @ (case map_of settings key of Some v \<Rightarrow> py_str v | None \<Rightarrow> ''{'' @ key @ ''}'')
             @ expansion settings tokens x" for x
    by (simp add: expansion_def token)
  have w: "warnings settings (token # tokens)
         = (case map_of settings key of
              Some v \<Rightarrow> []
            | None \<Rightarrow> [LogEntry ''w'' ''Unable to replace '%s' placeholder in start/end gcode'' [key]])
           @ warnings settings tokens"
    by (simp add: warnings_def token)
  show ?case
    unfolding e w
    by (simp add: vformat.simps [of _ _ "template (token # tokens) rest"] n
        field_text_setting_key [OF key] Cons.IH [OF rest]
        split: option.splits prod.splits sum.splits)
qed

lemma template_append:
  "template tokens (tail @ rest) = template tokens tail @ rest"
  by (simp add: template_def)

text \<open>
  With a lone surrogate in the template, the handler's own encoding raises: the exception
  leaves \<^verbatim>\<open>_expandGcodeTokens\<close>, after the warning.
\<close>

lemma expandGcodeTokens_surrogate_raises:
  "expandGcodeTokens no_finisher ''machine_start_gcode''
     (PStr [CHR 0xED, CHR 0xA0, CHR 0x80]) []
   = (Inl UnicodeEncodeError,
      [LogEntry ''w'' ''Unabled to do token replacement on start/end gcode %s'' []])"
  by (simp add: expandGcodeTokens_def formatter_format_def vformat.simps next_item_def
      is_brace_def encode_def py_str_def)

text \<open>
  C5, as the specification states it, fails for a setting whose key is a decimal number: the
  formatter reads the name \<^verbatim>\<open>0\<close> of the token \<^verbatim>\<open>{0}\<close> as a position, \<^verbatim>\<open>get_value\<close> receives an
  integer and never looks it up, so the token stays although the key is in the settings, and
  the warning is the one of an incorrectly formatted placeholder.
\<close>

theorem numbered_token_not_replaced:
  "map_of [(''0'', PStr ''10'')] ''0'' = Some (PStr ''10'')
   \<and> expandGcodeTokens no_finisher ''machine_start_gcode'' (PStr ''G1 X{0}'') [(''0'', PStr ''10'')]
     = (Inr ''G1 X{0}'',
        [LogEntry ''w'' ''Incorrectly formatted placeholder '%s' in start/end gcode'' [''0'']])"
  by (simp add: expandGcodeTokens_def formatter_format_def vformat.simps next_item_def
      is_brace_def parse_field_def field_text_def number_field_def isdigit_def is_digit_def
      first_key_def is_accessor_def number_by_database_def is_ascii_def get_value_def
      py_str_def str_of_nat.simps get_integer_def digit_value_def PY_SSIZE_T_MAX_def
      encode_def)

text \<open>
  C5, amended. Take a template made of text without braces and of tokens \<^verbatim>\<open>{key}\<close> whose keys
  have a character of ASCII that is not a digit and no character of the format syntax.
  When the expanded text can be encoded, \<^verbatim>\<open>_expandGcodeTokens\<close> returns the template with each
  token of a key of the settings replaced by the text of its value and each other token left
  as it is, and logs one warning for each token left, in their order. When a single \<^verbatim>\<open>{\<close>
  follows the template, the formatting fails: the template is returned as it was, and the
  warning of the handler is logged after those of the tokens. And for every value whose text
  can be encoded, whatever the formatting does, \<^verbatim>\<open>_expandGcodeTokens\<close> raises nothing and
  returns the formatted text or the text of the value; when the formatting raises, or gives a
  text that cannot be encoded, it returns the text of the value as it was and logs the warning
  of the handler.
\<close>

theorem setting_tokens_expanded:
  assumes "list_all (\<lambda>(t, key). plain_text t \<and> setting_key key) tokens" and "plain_text tail"
  shows "(\<not> has_surrogate (expansion settings tokens tail) \<longrightarrow>
            expandGcodeTokens finish k (PStr (template tokens tail)) settings
              = (Inr (expansion settings tokens tail), warnings settings tokens))
       \<and> (\<not> has_surrogate (template tokens tail @ ''{'') \<longrightarrow>
            expandGcodeTokens finish k (PStr (template tokens tail @ ''{'')) settings
              = (Inr (template tokens tail @ ''{''),
                 warnings settings tokens @ [fallback_warning]))
       \<and> (\<forall>v. \<not> has_surrogate (py_str v) \<longrightarrow>
            (\<exists>bytes entries.
                expandGcodeTokens finish k v settings = (Inr bytes, entries)
              \<and> (bytes = py_str v \<or> fst (formatter_format finish v settings) = Inr bytes)
              \<and> (\<forall>e log1. formatter_format finish v settings = (Inl e, log1) \<longrightarrow>
                    bytes = py_str v \<and> entries = log1 @ [fallback_warning])
              \<and> (\<forall>formatted log1.
                    formatter_format finish v settings = (Inr formatted, log1)
                    \<and> has_surrogate formatted \<longrightarrow>
                    bytes = py_str v \<and> entries = log1 @ [fallback_warning])))"
proof (intro conjI impI allI)
  assume "\<not> has_surrogate (expansion settings tokens tail)"
  moreover have "vformat finish settings (template tokens tail) (Some 0)
      = (Inr (expansion settings tokens tail), warnings settings tokens)"
    by (simp add: vformat_tokens [OF assms(1)] vformat_plain_text [OF assms(2)])
  ultimately show "expandGcodeTokens finish k (PStr (template tokens tail)) settings
      = (Inr (expansion settings tokens tail), warnings settings tokens)"
    by (simp add: expandGcodeTokens_def formatter_format_def encode_def)
next
  assume "\<not> has_surrogate (template tokens tail @ ''{'')"
  moreover have "vformat finish settings (template tokens (tail @ ''{'')) (Some 0)
      = (Inl ValueError, warnings settings tokens)"
    by (simp add: vformat_tokens [OF assms(1)] vformat_open_brace [OF assms(2)])
  ultimately show "expandGcodeTokens finish k (PStr (template tokens tail @ ''{'')) settings
      = (Inr (template tokens tail @ ''{''), warnings settings tokens @ [fallback_warning])"
    by (simp add: expandGcodeTokens_def formatter_format_def encode_def template_append
        py_str_def fallback_warning_def)
next
  fix v
  assume v: "\<not> has_surrogate (py_str v)"
  obtain r log1 where f: "formatter_format finish v settings = (r, log1)"
    by (cases "formatter_format finish v settings")
  show "\<exists>bytes entries.
          expandGcodeTokens finish k v settings = (Inr bytes, entries)
        \<and> (bytes = py_str v \<or> fst (formatter_format finish v settings) = Inr bytes)
        \<and> (\<forall>e log1. formatter_format finish v settings = (Inl e, log1) \<longrightarrow>
              bytes = py_str v \<and> entries = log1 @ [fallback_warning])
        \<and> (\<forall>formatted log1.
              formatter_format finish v settings = (Inr formatted, log1)
              \<and> has_surrogate formatted \<longrightarrow>
              bytes = py_str v \<and> entries = log1 @ [fallback_warning])"
  proof (cases r)
    case (Inl e)
    with f v show ?thesis
      by (simp add: expandGcodeTokens_def encode_def fallback_warning_def)
  next
    case (Inr formatted)
    with f v show ?thesis
      by (cases "has_surrogate formatted")
        (simp_all add: expandGcodeTokens_def encode_def fallback_warning_def)
  qed
qed

theorem setting_tokens_expanded_witness:
  "list_all (\<lambda>(t, key). plain_text t \<and> setting_key key)
     [(''M140 S'', ''material_bed_temperature''), ('' '', ''foo'')]
   \<and> plain_text '' ; start''
   \<and> \<not> has_surrogate ''M140 S60 {foo} ; start''
   \<and> expandGcodeTokens no_finisher ''machine_start_gcode''
        (PStr ''M140 S{material_bed_temperature} {foo} ; start'')
        [(''material_bed_temperature'', PStr ''60'')]
      = (Inr ''M140 S60 {foo} ; start'',
         [LogEntry ''w'' ''Unable to replace '%s' placeholder in start/end gcode'' [''foo'']])
   \<and> \<not> has_surrogate ''M140 S{material_bed_temperature} {foo} ; start{''
   \<and> expandGcodeTokens no_finisher ''machine_start_gcode''
        (PStr ''M140 S{material_bed_temperature} {foo} ; start{'')
        [(''material_bed_temperature'', PStr ''60'')]
      = (Inr ''M140 S{material_bed_temperature} {foo} ; start{'',
         [LogEntry ''w'' ''Unable to replace '%s' placeholder in start/end gcode'' [''foo''],
          fallback_warning])
   \<and> \<not> has_surrogate (py_str (PInt 5))
   \<and> formatter_format no_finisher (PInt 5) [(''material_bed_temperature'', PStr ''60'')]
      = (Inl TypeError, [])
   \<and> expandGcodeTokens no_finisher ''machine_start_gcode'' (PInt 5)
        [(''material_bed_temperature'', PStr ''60'')]
      = (Inr ''5'', [fallback_warning])
   \<and> \<not> has_surrogate (py_str (PStr ''{a}''))
   \<and> formatter_format no_finisher (PStr ''{a}'') [(''a'', PStr [CHR 0xED, CHR 0xA0, CHR 0x80])]
      = (Inr [CHR 0xED, CHR 0xA0, CHR 0x80], [])
   \<and> has_surrogate [CHR 0xED, CHR 0xA0, CHR 0x80]
   \<and> expandGcodeTokens no_finisher ''machine_start_gcode'' (PStr ''{a}'')
        [(''a'', PStr [CHR 0xED, CHR 0xA0, CHR 0x80])]
      = (Inr ''{a}'', [fallback_warning])"
proof -
  let ?tokens = "[(''M140 S'', ''material_bed_temperature''), ('' '', ''foo'')]"
  let ?settings = "[(''material_bed_temperature'', PStr ''60'')]"
  have h: "list_all (\<lambda>(t, key). plain_text t \<and> setting_key key) ?tokens"
    by (simp add: plain_text_def setting_key_def is_ascii_def is_digit_def is_brace_def)
  have p: "plain_text '' ; start''"
    by (simp add: plain_text_def is_brace_def)
  have t: "template ?tokens '' ; start'' = ''M140 S{material_bed_temperature} {foo} ; start''"
    by (simp add: template_def)
  have e: "expansion ?settings ?tokens '' ; start'' = ''M140 S60 {foo} ; start''"
    by (simp add: expansion_def py_str_def)
  have w: "warnings ?settings ?tokens
         = [LogEntry ''w'' ''Unable to replace '%s' placeholder in start/end gcode'' [''foo'']]"
    by (simp add: warnings_def)
  have s1: "\<not> has_surrogate ''M140 S60 {foo} ; start''"
    by simp
  have s2: "\<not> has_surrogate ''M140 S{material_bed_temperature} {foo} ; start{''"
    by simp
  have s3: "\<not> has_surrogate (py_str (PInt 5))"
    by (simp add: py_str_def str_of_nat.simps)
  have f: "formatter_format no_finisher (PInt 5) ?settings = (Inl TypeError, [])"
    by (simp add: formatter_format_def)
  note inst = setting_tokens_expanded [OF h p, of ?settings no_finisher "''machine_start_gcode''",
      unfolded t e w]
  from inst s1 have r1: "expandGcodeTokens no_finisher ''machine_start_gcode''
        (PStr ''M140 S{material_bed_temperature} {foo} ; start'') ?settings
      = (Inr ''M140 S60 {foo} ; start'',
         [LogEntry ''w'' ''Unable to replace '%s' placeholder in start/end gcode'' [''foo'']])"
    by blast
  from inst s2 have r2: "expandGcodeTokens no_finisher ''machine_start_gcode''
        (PStr ''M140 S{material_bed_temperature} {foo} ; start{'') ?settings
      = (Inr ''M140 S{material_bed_temperature} {foo} ; start{'',
         [LogEntry ''w'' ''Unable to replace '%s' placeholder in start/end gcode'' [''foo''],
          fallback_warning])"
    by simp
  from inst [THEN conjunct2, THEN conjunct2, rule_format, OF s3] obtain bytes entries
    where x: "expandGcodeTokens no_finisher ''machine_start_gcode'' (PInt 5) ?settings
                = (Inr bytes, entries)"
      and y: "\<forall>e log1. formatter_format no_finisher (PInt 5) ?settings = (Inl e, log1) \<longrightarrow>
                bytes = py_str (PInt 5) \<and> entries = log1 @ [fallback_warning]"
    by blast
  let ?held = "[(''a'', PStr [CHR 0xED, CHR 0xA0, CHR 0x80])]"
  have s4: "\<not> has_surrogate (py_str (PStr ''{a}''))"
    by (simp add: py_str_def)
  have s5: "has_surrogate [CHR 0xED, CHR 0xA0, CHR 0x80]"
    by simp
  have f4: "formatter_format no_finisher (PStr ''{a}'') ?held
      = (Inr [CHR 0xED, CHR 0xA0, CHR 0x80], [])"
    by (simp add: formatter_format_def vformat.simps next_item_def is_brace_def parse_field_def
        field_text_def number_field_def isdigit_def is_digit_def first_key_def is_accessor_def
        number_by_database_def is_ascii_def get_value_def py_str_def)
  from setting_tokens_expanded [OF h p, of ?held no_finisher "''machine_start_gcode''",
      THEN conjunct2, THEN conjunct2, rule_format, OF s4]
  obtain bytes4 entries4
    where x4: "expandGcodeTokens no_finisher ''machine_start_gcode'' (PStr ''{a}'') ?held
                = (Inr bytes4, entries4)"
      and y4: "\<forall>formatted log1.
                formatter_format no_finisher (PStr ''{a}'') ?held = (Inr formatted, log1)
                \<and> has_surrogate formatted \<longrightarrow>
                bytes4 = py_str (PStr ''{a}'') \<and> entries4 = log1 @ [fallback_warning]"
    by blast
  from y4 f4 s5 have "bytes4 = py_str (PStr ''{a}'')" and "entries4 = [fallback_warning]"
    by simp_all
  with x4 have r4: "expandGcodeTokens no_finisher ''machine_start_gcode'' (PStr ''{a}'') ?held
      = (Inr ''{a}'', [fallback_warning])"
    by (simp add: py_str_def)
  from y f have "bytes = py_str (PInt 5)" and "entries = [fallback_warning]"
    by simp_all
  with x have r3: "expandGcodeTokens no_finisher ''machine_start_gcode'' (PInt 5) ?settings
      = (Inr ''5'', [fallback_warning])"
    by (simp add: py_str_def str_of_nat.simps)
  from h p s1 s2 s3 f r1 r2 r3 s4 f4 s5 r4 show ?thesis
    by blast
qed

end
